theory Spec2Isabelle
  imports Main
begin

section \<open>Server-sent events (3-streamable/SSE/src/server-sent-events.ts)\<close>

subsection \<open>JavaScript string helpers\<close>

text \<open>
  Header values reach the handler as strings of Latin-1 code units, so a HOL \<open>string\<close>
  (a list of 8-bit characters) holds them. The white space that \<open>parseInt\<close> and
  \<open>trim\<close> skip is, among those code units: TAB, LF, VT, FF, CR, SP and NBSP.
\<close>

definition is_js_space :: "char \<Rightarrow> bool" where
  "is_js_space c = (c \<in> set [CHR 0x09, CHR 0x0A, CHR 0x0B, CHR 0x0C, CHR 0x0D, CHR 0x20, CHR 0xA0])"

definition is_digit :: "char \<Rightarrow> bool" where
  "is_digit c = (48 \<le> (of_char c :: nat) \<and> (of_char c :: nat) \<le> 57)"

definition digit_val :: "char \<Rightarrow> int" where
  "digit_val c = int (of_char c) - 48"

text \<open>
  \<open>parseInt(s, 10)\<close>: skip leading white space, read an optional sign, then the longest
  run of decimal digits; no digit at all gives NaN (\<open>None\<close>). The radix is given as 10,
  so no \<open>0x\<close> prefix is recognised. The result is a JavaScript number; it is kept as an
  unbounded integer here. The handler only compares it with 0, adds 1 and compares the sum
  with 10, and a double that was rounded (a numeral of 2^53 or more) is far above 10 both
  before and after rounding, so the comparisons come out the same.
\<close>

definition parseInt10 :: "string \<Rightarrow> int option" where
  "parseInt10 s =
     (let t = dropWhile is_js_space s;
          sgn = (case t of [] \<Rightarrow> 1 | c # r \<Rightarrow> if c = CHR ''-'' then - 1 else (1::int));
          u = (case t of [] \<Rightarrow> [] | c # r \<Rightarrow> if c = CHR ''-'' \<or> c = CHR ''+'' then r else t);
          z = takeWhile is_digit u
      in if z = [] then None else Some (sgn * foldl (\<lambda>acc c. 10 * acc + digit_val c) 0 z))"

text \<open>The decimal numeral of a natural number, as \<open>`${i}`\<close> prints it.\<close>

definition digit_char :: "nat \<Rightarrow> char" where
  "digit_char d = char_of (48 + d)"

fun decimal :: "nat \<Rightarrow> string" where
  "decimal n = (if n < 10 then [digit_char n] else decimal (n div 10) @ [digit_char (n mod 10)])"

declare decimal.simps [simp del]

definition js_show :: "int \<Rightarrow> string" where
  "js_show v = (if v < 0 then CHR ''-'' # decimal (nat (- v)) else decimal (nat v))"

subsection \<open>Frames, the response object and the trace of a run\<close>

text \<open>
  One value of \<open>frame\<close> stands for the block of text that a handler writes between two
  suspension points (one to three consecutive \<open>response.write\<close> calls); \<open>wire\<close> gives
  the text.
\<close>

datatype frame =
    Comment string
  | Data string
  | EmptyData
  | Event string int
  | EventWithId string int int
  | Eom

definition nl :: string where
  "nl = [CHR 0x0A]"

definition value_object :: "int \<Rightarrow> string" where
  "value_object v = ''{ '' @ [CHR 0x22] @ ''value'' @ [CHR 0x22] @ '': '' @ js_show v @ '' }''"

fun wire :: "frame \<Rightarrow> string" where
  "wire (Comment t) = '': '' @ t @ nl @ nl"
| "wire (Data t) = ''data: '' @ t @ nl @ nl"
| "wire EmptyData = ''data'' @ nl @ nl"
| "wire (Event name v) = ''event: '' @ name @ nl @ ''data: '' @ value_object v @ nl @ nl"
| "wire (EventWithId name v i) =
     ''event: '' @ name @ nl @ ''data: '' @ value_object v @ nl @ ''id: '' @ js_show i @ nl @ nl"
| "wire Eom = ''event: eom'' @ nl @ ''data'' @ nl @ nl"

text \<open>
  What a run does, in order: the calls on the response object, the timer of each
  \<open>sleep\<close> being set and firing, and the delivery of the response's \<open>close\<close> event.
\<close>

datatype action =
    WriteHead nat
  | Send nat string
  | Write frame
  | WriteAfterEnd frame
  | End
  | TimerSet nat
  | TimerFired
  | ClientClosed

record run_state =
  aborted :: bool
  writableEnded :: bool
  awaits :: nat
  log :: "action list"

definition init_state :: run_state where
  "init_state = \<lparr>aborted = False, writableEnded = False, awaits = 0, log = []\<rparr>"

definition emit :: "action \<Rightarrow> run_state \<Rightarrow> run_state" where
  "emit a st = st\<lparr>log := log st @ [a]\<rparr>"

definition response_write :: "frame \<Rightarrow> run_state \<Rightarrow> run_state" where
  "response_write f st = (if writableEnded st then emit (WriteAfterEnd f) st else emit (Write f) st)"

text \<open>\<open>response.end()\<close> on a response that has ended already does nothing.\<close>

definition response_end :: "run_state \<Rightarrow> run_state" where
  "response_end st = (if writableEnded st then st else (emit End st)\<lparr>writableEnded := True\<rparr>)"

text \<open>The \<open>cleanup\<close> closure of the two handlers that listen for \<open>close\<close>.\<close>

definition cleanup :: "run_state \<Rightarrow> run_state" where
  "cleanup st = (let st1 = st\<lparr>aborted := True\<rparr> in
                 if \<not> writableEnded st1 then response_end st1 else st1)"

text \<open>
  \<open>await sleep(ms)\<close>: a timer is set and the handler is suspended until it fires. The
  handlers have no other suspension point, so the \<open>close\<close> event of a client that
  disconnects during the run is delivered during one of these waits. The schedule
  \<open>disc\<close> names it: \<open>Some n\<close> when the event arrives during the wait number \<open>n\<close> of
  the run (counted from 0), \<open>None\<close> when the client stays connected. \<open>on_close\<close> is
  the listener that the handler registered (the identity when it registered none).
  The promise of \<open>sleep\<close> is resolved by the timer only: nothing clears the timer, so the
  handler resumes when it has fired.
\<close>

definition sleep :: "nat \<Rightarrow> nat option \<Rightarrow> (run_state \<Rightarrow> run_state) \<Rightarrow> run_state \<Rightarrow> run_state" where
  "sleep ms disc on_close st =
     (let st1 = emit (TimerSet ms) st;
          st2 = (if disc = Some (awaits st1) then on_close (emit ClientClosed st1) else st1)
      in emit TimerFired (st2\<lparr>awaits := awaits st2 + 1\<rparr>))"

definition parity_name :: "int \<Rightarrow> string" where
  "parity_name i = (if i mod 2 = 0 then ''even'' else ''odd'')"

text \<open>
  The calls on the response object do not throw in this model, so the \<open>catch\<close>
  branches of the handlers, which call \<open>cleanup\<close>, are not reached.
\<close>

subsection \<open>GET /data-only\<close>

function data_only_loop :: "nat option \<Rightarrow> int \<Rightarrow> run_state \<Rightarrow> run_state" where
  "data_only_loop disc i st =
     (if i < 10 then
        (let st1 = sleep 1000 disc (\<lambda>s. s) st;
             st2 = response_write (Data (''Data '' @ js_show i)) st1
         in data_only_loop disc (i + 1) st2)
      else st)"
  by pat_completeness auto
termination
  by (relation "measure (\<lambda>(disc, i, st). nat (10 - i))") auto

declare data_only_loop.simps [simp del]

definition data_only :: "nat option \<Rightarrow> action list" where
  "data_only disc =
     (let st1 = emit (WriteHead 200) init_state;
          st2 = response_write (Comment ''Let's get started'') st1;
          st3 = data_only_loop disc 0 st2;
          st4 = response_write EmptyData st3
      in log (response_end st4))"

subsection \<open>GET /custom-events\<close>

record sse_request =
  accepts_event_stream :: bool
  last_event_id :: "string option"

function custom_events_loop :: "nat option \<Rightarrow> int \<Rightarrow> run_state \<Rightarrow> run_state" where
  "custom_events_loop disc i st =
     (if i < 10 then
        (if aborted st then st
         else let st1 = sleep 1000 disc cleanup st in
           if aborted st1 then st1
           else custom_events_loop disc (i + 1) (response_write (Event (parity_name i) i) st1))
      else st)"
  by pat_completeness auto
termination
  by (relation "measure (\<lambda>(disc, i, st). nat (10 - i))") auto

declare custom_events_loop.simps [simp del]

definition custom_events :: "sse_request \<Rightarrow> nat option \<Rightarrow> action list" where
  "custom_events req disc =
     (if \<not> accepts_event_stream req then [Send 406 ''Not Acceptable'']
      else
        let st1 = emit (WriteHead 200) init_state;
            st2 = custom_events_loop disc 0 st1;
            st3 = (if \<not> aborted st2 then response_write Eom st2 else st2)
        in log (response_end st3))"

subsection \<open>GET /custom-events-with-id\<close>

text \<open>
  Lines 125 to 136: where the loop starts, and whether the header was refused (the
  handler then writes a comment). An empty header value is falsy, like an absent one.
\<close>

definition resume_index :: "string option \<Rightarrow> int \<times> bool" where
  "resume_index h =
     (case h of
        None \<Rightarrow> (0, False)
      | Some lastEventId \<Rightarrow>
          if lastEventId = [] then (0, False)
          else (case parseInt10 lastEventId of
                  None \<Rightarrow> (0, True)
                | Some parsed \<Rightarrow> if parsed < 0 then (0, True) else (parsed + 1, False)))"

text \<open>The loop returns the value of \<open>i\<close> it stopped at, which the handler tests next.\<close>

function custom_events_with_id_loop :: "nat option \<Rightarrow> int \<Rightarrow> run_state \<Rightarrow> int \<times> run_state" where
  "custom_events_with_id_loop disc i st =
     (if i < 10 then
        (if aborted st then (i, st)
         else let st1 = sleep 1000 disc cleanup st in
           if aborted st1 then (i, st1)
           else let st2 = response_write (EventWithId (parity_name i) i i) st1 in
             if i = 5 then (i, st2)
             else custom_events_with_id_loop disc (i + 1) st2)
      else (i, st))"
  by pat_completeness auto
termination
  by (relation "measure (\<lambda>(disc, i, st). nat (10 - i))") auto

declare custom_events_with_id_loop.simps [simp del]

definition custom_events_with_id :: "sse_request \<Rightarrow> nat option \<Rightarrow> action list" where
  "custom_events_with_id req disc =
     (if \<not> accepts_event_stream req then [Send 406 ''Not Acceptable'']
      else
        let st1 = emit (WriteHead 200) init_state;
            (i0, refused) = resume_index (last_event_id req);
            st2 = (if refused then response_write (Comment ''Invalid Last-Event-Id, starting from 0'') st1
                   else st1);
            (i, st3) = custom_events_with_id_loop disc i0 st2;
            st4 = (if i = 10 \<and> \<not> aborted st3 then response_write Eom st3 else st3)
        in log (response_end st4))"

subsection \<open>Reading a trace\<close>

fun frames :: "action list \<Rightarrow> frame list" where
  "frames [] = []"
| "frames (Write f # tr) = f # frames tr"
| "frames (a # tr) = frames tr"

fun event_ids :: "frame list \<Rightarrow> int list" where
  "event_ids [] = []"
| "event_ids (EventWithId name v i # fs) = i # event_ids fs"
| "event_ids (f # fs) = event_ids fs"

definition after_close :: "action list \<Rightarrow> action list" where
  "after_close tr = drop 1 (dropWhile (\<lambda>a. a \<noteq> ClientClosed) tr)"

text \<open>
  The actions of a client that stays connected while the resumable endpoint emits the
  events \<open>js\<close>: one wait and one frame each.
\<close>

definition undisturbed_with_id :: "int list \<Rightarrow> action list" where
  "undisturbed_with_id js =
     concat (map (\<lambda>j. [TimerSet 1000, TimerFired, Write (EventWithId (parity_name j) j j)]) js)"

text \<open>The last two actions of a trace.\<close>

definition closing :: "action list \<Rightarrow> action list" where
  "closing tr = rev (take 2 (rev tr))"

text \<open>
  The two kinds of state a handler with a \<open>close\<close> listener can be in: the client has
  not gone, or the listener ran during the wait that has just ended.
\<close>

definition connected :: "run_state \<Rightarrow> bool" where
  "connected st \<longleftrightarrow> \<not> aborted st \<and> \<not> writableEnded st \<and> ClientClosed \<notin> set (log st)"

definition cut_off :: "run_state \<Rightarrow> bool" where
  "cut_off st \<longleftrightarrow> aborted st \<and> writableEnded st \<and>
     (\<exists>pre. log st = pre @ [ClientClosed, End, TimerFired] \<and> ClientClosed \<notin> set pre)"

text \<open>
  Following the words of the specification, not the code: a header value is numeric when
  it is a run of decimal digits with an optional minus sign in front.
\<close>

definition is_numeral :: "string \<Rightarrow> bool" where
  "is_numeral s =
     (case s of
        [] \<Rightarrow> False
      | c # r \<Rightarrow> if c = CHR ''-'' then r \<noteq> [] \<and> list_all is_digit r else list_all is_digit s)"

section \<open>The /mcp endpoints (DemoServer/src/mcp-express-handlers.ts, 4-auth/src/lib)\<close>

subsection \<open>The registry object\<close>

text \<open>
  \<open>transports\<close> is an object literal used as a dictionary from session ids to
  transports. Reading \<open>transports[k]\<close> finds the object's own property \<open>k\<close> and,
  when there is none, the property \<open>k\<close> of \<open>Object.prototype\<close>: a function, or for
  \<open>__proto__\<close> the prototype object itself, all of them truthy. \<open>delete\<close> removes
  an own property and leaves inherited ones alone.
\<close>

record transport =
  transport_sessionId :: "string option"

type_synonym registry = "string \<Rightarrow> transport option"

definition object_prototype_keys :: "string list" where
  "object_prototype_keys =
     [''constructor'', ''__defineGetter__'', ''__defineSetter__'', ''hasOwnProperty'',
      ''__lookupGetter__'', ''__lookupSetter__'', ''isPrototypeOf'', ''propertyIsEnumerable'',
      ''toString'', ''valueOf'', ''__proto__'', ''toLocaleString'']"

datatype property = Undefined | Own transport | Inherited

definition get_property :: "registry \<Rightarrow> string \<Rightarrow> property" where
  "get_property transports k =
     (case transports k of
        Some t \<Rightarrow> Own t
      | None \<Rightarrow> if k \<in> set object_prototype_keys then Inherited else Undefined)"

definition delete_property :: "registry \<Rightarrow> string \<Rightarrow> registry" where
  "delete_property transports k = transports(k := None)"

text \<open>A string is truthy when it is there and not empty.\<close>

definition truthy_string :: "string option \<Rightarrow> bool" where
  "truthy_string s = (case s of None \<Rightarrow> False | Some v \<Rightarrow> v \<noteq> [])"

text \<open>The value of \<open>sessionId && transports[sessionId]\<close>, as far as the test on it goes.\<close>

definition session_lookup :: "registry \<Rightarrow> string option \<Rightarrow> property" where
  "session_lookup transports sessionId =
     (case sessionId of
        None \<Rightarrow> Undefined
      | Some sid \<Rightarrow> if sid = [] then Undefined else get_property transports sid)"

subsection \<open>Requests, responses, the authentication context\<close>

datatype http_method = GET | HEAD | POST | DELETE | OPTIONS | OtherMethod

type_synonym claims = "(string \<times> string) list"

text \<open>
  A request to the path \<open>/mcp\<close>. \<open>OtherMethod\<close> is any method but the five
  named ones. Of a request, what the application reads: the method, two headers, the
  \<open>method\<close> member of the parsed body (\<open>None\<close> when the body is missing or has
  no such member), the verdict of the SDK's \<open>isInitializeRequest\<close> on the body, the
  status with which \<open>express.json()\<close> refuses the body (\<open>None\<close> when it lets
  the request through; 400 for a body that does not parse), and the three properties that
  the authentication middleware attaches.
\<close>

record mcp_request =
  http_method :: http_method
  authorization :: "string option"
  session_id_header :: "string option"
  body_method :: "string option"
  is_initialize_request :: bool
  body_parser_error :: "nat option"
  req_token :: "string option"
  req_tokenClaims :: "claims option"
  req_isAuthenticated :: "bool option"

record JsonRpcError =
  code :: int
  message :: string

record JsonRpcEnvelope =
  jsonrpc :: string
  error :: JsonRpcError
  rpc_id :: "int option"

text \<open>
  The body of a response: none, a text, a JSON-RPC error envelope, what a transport
  wrote, or the error page of Express. Of the headers of a response, the model keeps
  those that the code of the repository sets; the ones that Express and the CORS layer
  add are left out.
\<close>

datatype payload = NoBody | Text string | Json JsonRpcEnvelope | FromTransport string | ErrorPage

record http_response =
  status :: nat
  headers :: "(string \<times> string) list"
  body :: payload

definition NO_VALID_SESSION_ID_ERROR :: JsonRpcError where
  "NO_VALID_SESSION_ID_ERROR = \<lparr>code = - 32000, message = ''Bad Request: No valid session ID provided''\<rparr>"

definition INTERNAL_SERVER_ERROR :: JsonRpcError where
  "INTERNAL_SERVER_ERROR = \<lparr>code = - 32603, message = ''Internal server error''\<rparr>"

definition METHOD_NOT_ALLOWED_ERROR :: JsonRpcError where
  "METHOD_NOT_ALLOWED_ERROR = \<lparr>code = - 32000, message = ''Method not allowed''\<rparr>"

text \<open>\<open>id: null\<close> is \<open>None\<close>.\<close>

definition getJsonRpcError :: "JsonRpcError \<Rightarrow> JsonRpcEnvelope" where
  "getJsonRpcError e = \<lparr>jsonrpc = ''2.0'', error = e, rpc_id = None\<rparr>"

record AuthContext =
  token :: "string option"
  tokenClaims :: "claims option"
  isAuthenticated :: bool
  sessionId :: "string option"

text \<open>
  The store of the \<open>AsyncLocalStorage\<close> is passed explicitly: \<open>runWithAuthContext\<close>
  runs its function with the context as the store, and code that runs with a store reads
  it back.
\<close>

definition runWithAuthContext :: "AuthContext \<Rightarrow> (AuthContext option \<Rightarrow> 'a) \<Rightarrow> 'a" where
  "runWithAuthContext context fn = fn (Some context)"

definition getAuthContext :: "AuthContext option \<Rightarrow> AuthContext option" where
  "getAuthContext store = store"

definition isAuthenticated_helper :: "AuthContext option \<Rightarrow> bool" where
  "isAuthenticated_helper store =
     (case getAuthContext store of None \<Rightarrow> False | Some context \<Rightarrow> isAuthenticated context)"

text \<open>The context that the 4-auth handlers build from the request.\<close>

definition authContext_of :: "mcp_request \<Rightarrow> string option \<Rightarrow> AuthContext" where
  "authContext_of req sid =
     \<lparr>token = req_token req, tokenClaims = req_tokenClaims req,
      isAuthenticated = (case req_isAuthenticated req of None \<Rightarrow> False | Some b \<Rightarrow> b),
      sessionId = sid\<rparr>"

subsection \<open>The transport of the SDK\<close>

text \<open>
  \<open>StreamableHTTPServerTransport.handleRequest\<close> belongs to the SDK. The handlers are
  modelled for any behaviour of it, given as a function of the store it runs with, the
  transport and the request. It either completes, with its reply, the session id it
  generated if it initialised the session (it has then set its own \<open>sessionId\<close> and
  called \<open>onsessioninitialized\<close>) and whether it closed (it has then called
  \<open>onclose\<close>); or it throws, having sent the response head or not.
\<close>

datatype sdk_result =
    Completed http_response "string option" bool
  | Raised bool

type_synonym sdk = "AuthContext option \<Rightarrow> transport \<Rightarrow> mcp_request \<Rightarrow> sdk_result"

text \<open>
  What a handler does with a request: it answers itself; it hands the request to a
  transport, which answers, running with the given store; it throws; or it catches an
  exception when the head of the response has gone out, and leaves the response at that.
\<close>

datatype outcome =
    Responded http_response
  | Handled "AuthContext option" transport http_response
  | Threw
  | Abandoned

definition bad_request_no_session :: http_response where
  "bad_request_no_session =
     \<lparr>status = 400, headers = [], body = Json (getJsonRpcError NO_VALID_SESSION_ID_ERROR)\<rparr>"

subsection \<open>DemoServer\<close>

text \<open>The \<open>onclose\<close> callback that \<open>mcpPostHandler\<close> gives a new transport.\<close>

definition onclose_demo :: "registry \<Rightarrow> transport \<Rightarrow> registry" where
  "onclose_demo transports t =
     (let sid = transport_sessionId t in
      if truthy_string sid \<and> session_lookup transports sid \<noteq> Undefined
      then delete_property transports (the sid) else transports)"

text \<open>
  \<open>transport.handleRequest\<close> with the callbacks that the handler registered:
  \<open>onsessioninitialized\<close> stores the transport under the new id, \<open>onclose\<close> is
  the given cleanup. The second component of the result tells whether the call threw
  without the response head having been sent.
\<close>

definition handleRequest ::
  "sdk \<Rightarrow> (registry \<Rightarrow> transport \<Rightarrow> registry) \<Rightarrow> (string \<Rightarrow> (string \<times> string) list) \<Rightarrow>
   AuthContext option \<Rightarrow> registry \<Rightarrow> transport \<Rightarrow> mcp_request \<Rightarrow> (outcome \<times> bool) \<times> registry" where
  "handleRequest sdk onclose extra_headers store transports t req =
     (case sdk store t req of
        Raised headersSent \<Rightarrow> ((Threw, \<not> headersSent), transports)
      | Completed reply initialized closed \<Rightarrow>
          (let t1 = (case initialized of None \<Rightarrow> t | Some sid \<Rightarrow> t\<lparr>transport_sessionId := Some sid\<rparr>);
               transports1 = (case initialized of None \<Rightarrow> transports | Some sid \<Rightarrow> transports(sid \<mapsto> t1));
               reply1 = (case initialized of None \<Rightarrow> reply
                         | Some sid \<Rightarrow> reply\<lparr>headers := extra_headers sid @ headers reply\<rparr>);
               transports2 = (if closed then onclose transports1 t1 else transports1)
           in ((Handled store t reply1, False), transports2)))"

text \<open>
  A registry is well keyed when every transport in it is stored under its own session id,
  as \<open>onsessioninitialized\<close> stores it.
\<close>

definition well_keyed :: "registry \<Rightarrow> bool" where
  "well_keyed transports \<longleftrightarrow> (\<forall>s t. transports s = Some t \<longrightarrow> transport_sessionId t = Some s)"

definition internal_server_error :: http_response where
  "internal_server_error =
     \<lparr>status = 500, headers = [], body = Json (getJsonRpcError INTERNAL_SERVER_ERROR)\<rparr>"

text \<open>
  The \<open>try\<close>/\<open>catch\<close> of \<open>mcpPostHandler\<close>: an exception is answered with 500
  unless the head of the response has gone out.
\<close>

definition catch_demo :: "(outcome \<times> bool) \<times> registry \<Rightarrow> outcome \<times> registry" where
  "catch_demo r =
     (case r of ((out, recoverable), transports) \<Rightarrow>
        if out = Threw
        then (if recoverable then (Responded internal_server_error, transports)
              else (Abandoned, transports))
        else (out, transports))"

definition mcpPostHandler :: "sdk \<Rightarrow> registry \<Rightarrow> mcp_request \<Rightarrow> outcome \<times> registry" where
  "mcpPostHandler sdk transports req =
     (let sessionId = (if truthy_string (session_id_header req) then session_id_header req else None)
      in catch_demo
        (case session_lookup transports sessionId of
           Own t \<Rightarrow> handleRequest sdk onclose_demo (\<lambda>sid. []) None transports t req
         | Inherited \<Rightarrow> ((Threw, True), transports)
         | Undefined \<Rightarrow>
             if \<not> truthy_string sessionId \<and> is_initialize_request req
             then handleRequest sdk onclose_demo (\<lambda>sid. []) None transports
                    \<lparr>transport_sessionId = None\<rparr> req
             else ((Responded bad_request_no_session, False), transports)))"

definition mcpGetHandler :: "sdk \<Rightarrow> registry \<Rightarrow> mcp_request \<Rightarrow> outcome \<times> registry" where
  "mcpGetHandler sdk transports req =
     (case session_lookup transports (session_id_header req) of
        Undefined \<Rightarrow>
          (Responded \<lparr>status = 400, headers = [], body = Text ''Invalid or missing session ID''\<rparr>,
           transports)
      | Own t \<Rightarrow>
          (case handleRequest sdk onclose_demo (\<lambda>sid. []) None transports t req of
             ((out, recoverable), transports') \<Rightarrow> (out, transports'))
      | Inherited \<Rightarrow> (Threw, transports))"

definition mcpMethodNotAllowedHandler :: "registry \<Rightarrow> mcp_request \<Rightarrow> outcome \<times> registry" where
  "mcpMethodNotAllowedHandler transports req =
     (Responded \<lparr>status = 405, headers = [], body = Json (getJsonRpcError METHOD_NOT_ALLOWED_ERROR)\<rparr>,
      transports)"

text \<open>
  What the layers in front of the routes answer. A request that finds no route gets the
  404 page of Express. \<open>express.json()\<close> passes the error of a body it refuses to the
  error handler of Express, which answers with the status of the error. The CORS layer
  answers a preflight, which is any \<open>OPTIONS\<close> request, itself: with status 204, as
  neither server sets another.
\<close>

definition not_found :: http_response where
  "not_found = \<lparr>status = 404, headers = [], body = ErrorPage\<rparr>"

definition body_refused :: "nat \<Rightarrow> http_response" where
  "body_refused st = \<lparr>status = st, headers = [], body = ErrorPage\<rparr>"

definition cors_preflight :: http_response where
  "cors_preflight = \<lparr>status = 204, headers = [], body = NoBody\<rparr>"

text \<open>
  The DemoServer on \<open>/mcp\<close>, in the order of its \<open>app.use\<close> calls:
  \<open>express.json()\<close>, the CORS layer, then the routes. Express sends a \<open>HEAD\<close>
  request to the route of \<open>GET\<close> when no route is registered for \<open>HEAD\<close>.
\<close>

definition demo_mcp :: "sdk \<Rightarrow> registry \<Rightarrow> mcp_request \<Rightarrow> outcome \<times> registry" where
  "demo_mcp sdk transports req =
     (case body_parser_error req of
        Some st \<Rightarrow> (Responded (body_refused st), transports)
      | None \<Rightarrow>
          (case http_method req of
             OPTIONS \<Rightarrow> (Responded cors_preflight, transports)
           | POST \<Rightarrow> mcpPostHandler sdk transports req
           | GET \<Rightarrow> mcpGetHandler sdk transports req
           | HEAD \<Rightarrow> mcpGetHandler sdk transports req
           | DELETE \<Rightarrow> mcpMethodNotAllowedHandler transports req
           | OtherMethod \<Rightarrow> (Responded not_found, transports)))"

subsection \<open>4-auth: configuration and the authentication middleware\<close>

text \<open>The environment variables that decide the resource identifier.\<close>

record environment =
  NODE_ENV :: "string option"
  PORT :: "string option"
  MCP_RESOURCE_ID :: string

definition devResourceId :: "environment \<Rightarrow> string" where
  "devResourceId env =
     ''http://localhost:'' @ (if truthy_string (PORT env) then the (PORT env) else ''3000'') @ ''/mcp''"

definition resourceId :: "environment \<Rightarrow> string" where
  "resourceId env =
     (if NODE_ENV env = Some ''production'' then MCP_RESOURCE_ID env else devResourceId env)"

definition WWW_AUTHENTICATE_HEADER :: "environment \<Rightarrow> string \<times> string" where
  "WWW_AUTHENTICATE_HEADER env =
     (''WWW-Authenticate'',
      ''Bearer realm='' @ [CHR 0x22] @ ''OAuth'' @ [CHR 0x22] @ '', resource_metadata='' @ [CHR 0x22]
        @ resourceId env @ ''/.well-known/oauth-protected-resource'' @ [CHR 0x22])"

text \<open>\<open>s.startsWith(p)\<close>, \<open>s.split(sep)\<close> for a separator that is not empty, \<open>s.trim()\<close>.\<close>

definition startsWith :: "string \<Rightarrow> string \<Rightarrow> bool" where
  "startsWith s p = (take (length p) s = p)"

function split_from :: "string \<Rightarrow> string \<Rightarrow> string \<Rightarrow> string list" where
  "split_from sep cur s =
     (if s = [] then [cur]
      else if sep \<noteq> [] \<and> startsWith s sep then cur # split_from sep [] (drop (length sep) s)
      else split_from sep (cur @ [hd s]) (tl s))"
  by pat_completeness auto
termination
  by (relation "measure (\<lambda>(sep, cur, s). length s)") auto

declare split_from.simps [simp del]

definition split :: "string \<Rightarrow> string \<Rightarrow> string list" where
  "split s sep = split_from sep [] s"

definition trim :: "string \<Rightarrow> string" where
  "trim s = rev (dropWhile is_js_space (rev (dropWhile is_js_space s)))"

text \<open>
  The token of \<open>requiredAuthMiddleware\<close>: \<open>null\<close> when the header is missing or does
  not start with the scheme, else the trimmed second piece of the split (\<open>undefined\<close>
  if there were none).
\<close>

definition bearer_token :: "string option \<Rightarrow> string option" where
  "bearer_token authHeader =
     (case authHeader of
        None \<Rightarrow> None
      | Some h \<Rightarrow>
          if startsWith h ''Bearer ''
          then (let pieces = split h ''Bearer '' in
                if 1 < length pieces then Some (trim (pieces ! 1)) else None)
          else None)"

text \<open>
  \<open>scalekit.validateToken\<close> is a service outside the repository: it is a parameter,
  which gives the claims of a token for a list of audiences, or \<open>None\<close> when it throws.
\<close>

type_synonym validator = "string \<Rightarrow> string list \<Rightarrow> claims option"

datatype middleware_result = Next mcp_request | Rejected http_response

definition unauthorized :: "environment \<Rightarrow> http_response" where
  "unauthorized env = \<lparr>status = 401, headers = [WWW_AUTHENTICATE_HEADER env], body = NoBody\<rparr>"

definition requiredAuthMiddleware :: "environment \<Rightarrow> validator \<Rightarrow> mcp_request \<Rightarrow> middleware_result" where
  "requiredAuthMiddleware env validateToken req =
     (let t = bearer_token (authorization req) in
      if \<not> truthy_string t then Rejected (unauthorized env)
      else (case validateToken (the t) [resourceId env] of
              None \<Rightarrow> Rejected (unauthorized env)
            | Some cl \<Rightarrow>
                Next (req\<lparr>req_token := t, req_tokenClaims := Some cl, req_isAuthenticated := Some True\<rparr>)))"

subsection \<open>4-auth: the handlers of createStreamableHTTPServer\<close>

text \<open>The \<open>onclose\<close> callback that the POST handler gives a new transport.\<close>

definition onclose_auth :: "registry \<Rightarrow> transport \<Rightarrow> registry" where
  "onclose_auth transports t =
     (if truthy_string (transport_sessionId t)
      then delete_property transports (the (transport_sessionId t)) else transports)"

definition drop_flag :: "(outcome \<times> bool) \<times> registry \<Rightarrow> outcome \<times> registry" where
  "drop_flag r = (case r of ((out, recoverable), transports) \<Rightarrow> (out, transports))"

definition app_post :: "sdk \<Rightarrow> registry \<Rightarrow> mcp_request \<Rightarrow> outcome \<times> registry" where
  "app_post sdk transports req =
     (let sessionId = session_id_header req in
      case session_lookup transports sessionId of
        Own t \<Rightarrow>
          runWithAuthContext (authContext_of req sessionId)
            (\<lambda>store. drop_flag (handleRequest sdk onclose_auth
                (\<lambda>sid. [(''mcp-session-id'', sid)]) store transports t req))
      | Inherited \<Rightarrow> (Threw, transports)
      | Undefined \<Rightarrow>
          if \<not> truthy_string sessionId \<and> body_method req = Some ''initialize''
          then runWithAuthContext (authContext_of req sessionId)
            (\<lambda>store. drop_flag (handleRequest sdk onclose_auth
                (\<lambda>sid. [(''mcp-session-id'', sid)]) store transports
                \<lparr>transport_sessionId = None\<rparr> req))
          else (Responded bad_request_no_session, transports))"

definition handleSessionRequest :: "sdk \<Rightarrow> registry \<Rightarrow> mcp_request \<Rightarrow> outcome \<times> registry" where
  "handleSessionRequest sdk transports req =
     (let sessionId = session_id_header req in
      case session_lookup transports sessionId of
        Undefined \<Rightarrow>
          (Responded \<lparr>status = 400, headers = [], body = Text ''Invalid or missing session ID''\<rparr>,
           transports)
      | Own t \<Rightarrow>
          runWithAuthContext (authContext_of req sessionId)
            (\<lambda>store. drop_flag (handleRequest sdk onclose_auth
                (\<lambda>sid. [(''mcp-session-id'', sid)]) store transports t req))
      | Inherited \<Rightarrow> (Threw, transports))"

text \<open>
  The 4-auth server on \<open>/mcp\<close>, in the order of its \<open>app.options\<close> and
  \<open>app.use\<close> calls: the CORS layer, \<open>express.json()\<close>, then
  \<open>app.use('/mcp', requiredAuthMiddleware)\<close> in front of the three routes. A request
  that the middleware rejects reaches no handler; a \<open>HEAD\<close> request goes to the route
  of \<open>GET\<close>.
\<close>

definition auth_mcp ::
  "environment \<Rightarrow> validator \<Rightarrow> sdk \<Rightarrow> registry \<Rightarrow> mcp_request \<Rightarrow> outcome \<times> registry" where
  "auth_mcp env validateToken sdk transports req =
     (if http_method req = OPTIONS then (Responded cors_preflight, transports)
      else
        (case body_parser_error req of
           Some st \<Rightarrow> (Responded (body_refused st), transports)
         | None \<Rightarrow>
             (case requiredAuthMiddleware env validateToken req of
                Rejected r \<Rightarrow> (Responded r, transports)
              | Next req' \<Rightarrow>
                  (case http_method req' of
                     POST \<Rightarrow> app_post sdk transports req'
                   | GET \<Rightarrow> handleSessionRequest sdk transports req'
                   | HEAD \<Rightarrow> handleSessionRequest sdk transports req'
                   | DELETE \<Rightarrow> handleSessionRequest sdk transports req'
                   | OPTIONS \<Rightarrow> (Responded not_found, transports)
                   | OtherMethod \<Rightarrow> (Responded not_found, transports)))))"

text \<open>
  Modelled from the spec: how the transport of a session answers a \<open>DELETE\<close> request.
  \<open>StreamableHTTPServerTransport.handleRequest\<close> is code of the SDK and not in the
  repository. The specification says that \<open>DELETE /mcp\<close> terminates the session and
  tears down the transport, and that a transport which closes triggers the removal from the
  registry: so the transport completes and closes, which calls \<open>onclose\<close>. The reply
  it sends, and what it does with any other request, stay parameters.
\<close>

definition spec_transport :: "http_response \<Rightarrow> sdk \<Rightarrow> sdk" where
  "spec_transport delete_reply other store t req =
     (if http_method req = DELETE then Completed delete_reply None True else other store t req)"

section \<open>Properties of the event streams\<close>

subsection \<open>Decimal numerals and parseInt\<close>

lemma is_digit_digit_char: "d < 10 \<Longrightarrow> is_digit (digit_char d)"
  by (simp add: is_digit_def digit_char_def)

lemma digit_val_digit_char: "d < 10 \<Longrightarrow> digit_val (digit_char d) = int d"
  by (simp add: digit_val_def digit_char_def)

lemma decimal_all_digits: "c \<in> set (decimal n) \<Longrightarrow> is_digit c"
proof (induction n arbitrary: c rule: decimal.induct)
  case (1 n)
  show ?case
  proof (cases "n < 10")
    case True
    with "1.prems" show ?thesis
      by (simp add: decimal.simps [of n] is_digit_digit_char)
  next
    case False
    with "1.prems" "1.IH" show ?thesis
      by (auto simp: decimal.simps [of n] is_digit_digit_char)
  qed
qed

lemma decimal_not_Nil: "decimal n \<noteq> []"
  by (subst decimal.simps) simp

lemma decimal_value: "foldl (\<lambda>acc c. 10 * acc + digit_val c) 0 (decimal n) = int n"
proof (induction n rule: decimal.induct)
  case (1 n)
  show ?case
  proof (cases "n < 10")
    case True
    then show ?thesis
      by (simp add: decimal.simps [of n] digit_val_digit_char)
  next
    case False
    then have "foldl (\<lambda>acc c. 10 * acc + digit_val c) 0 (decimal n)
                 = 10 * int (n div 10) + int (n mod 10)"
      using "1.IH" by (simp add: decimal.simps [of n] digit_val_digit_char)
    then show ?thesis by presburger
  qed
qed

lemma digit_plain: "is_digit c \<Longrightarrow> \<not> is_js_space c \<and> c \<noteq> CHR ''-'' \<and> c \<noteq> CHR ''+''"
  by (auto simp: is_digit_def is_js_space_def)

lemma parseInt10_digits:
  assumes "s \<noteq> []" and "\<forall>x \<in> set s. is_digit x"
  shows "parseInt10 s = Some (foldl (\<lambda>acc c. 10 * acc + digit_val c) 0 s)"
proof -
  obtain c r where cr: "s = c # r"
    using assms(1) by (cases s) auto
  have c: "is_digit c" using cr assms(2) by simp
  have t: "dropWhile is_js_space s = s"
    using cr c digit_plain by simp
  have sgn: "(case s of [] \<Rightarrow> 1 | c # r \<Rightarrow> if c = CHR ''-'' then - 1 else (1::int)) = 1"
    using cr digit_plain [OF c] by simp
  have u: "(case s of [] \<Rightarrow> [] | c # r \<Rightarrow> if c = CHR ''-'' \<or> c = CHR ''+'' then r else s) = s"
    using cr digit_plain [OF c] by simp
  have z: "takeWhile is_digit s = s"
    using assms(2) by (simp add: takeWhile_eq_all_conv)
  show ?thesis
    unfolding parseInt10_def t Let_def sgn u z using assms(1) by simp
qed

lemma parseInt10_decimal: "parseInt10 (decimal n) = Some (int n)"
  using parseInt10_digits [of "decimal n"] decimal_not_Nil [of n] decimal_all_digits [of _ n]
  by (simp add: decimal_value)

lemma resume_index_decimal: "resume_index (Some (decimal k)) = (int k + 1, False)"
  by (simp add: resume_index_def parseInt10_decimal decimal_not_Nil)

subsection \<open>Runs of a client that stays connected\<close>

lemma emit_simps [simp]:
  "aborted (emit a st) = aborted st"
  "writableEnded (emit a st) = writableEnded st"
  "awaits (emit a st) = awaits st"
  "log (emit a st) = log st @ [a]"
  by (simp_all add: emit_def)

lemma response_write_simps [simp]:
  "aborted (response_write f st) = aborted st"
  "writableEnded (response_write f st) = writableEnded st"
  "awaits (response_write f st) = awaits st"
  "log (response_write f st) = log st @ [if writableEnded st then WriteAfterEnd f else Write f]"
  by (simp_all add: response_write_def)

lemma response_end_simps [simp]:
  "aborted (response_end st) = aborted st"
  "writableEnded (response_end st)"
  "log (response_end st) = (if writableEnded st then log st else log st @ [End])"
  by (simp_all add: response_end_def)

lemma sleep_connected [simp]:
  "aborted (sleep ms None l st) = aborted st"
  "writableEnded (sleep ms None l st) = writableEnded st"
  "log (sleep ms None l st) = log st @ [TimerSet ms, TimerFired]"
  by (simp_all add: sleep_def Let_def)

lemma undisturbed_Cons:
  "undisturbed_with_id (j # js) =
     [TimerSet 1000, TimerFired, Write (EventWithId (parity_name j) j j)] @ undisturbed_with_id js"
  by (simp add: undisturbed_with_id_def)

lemma undisturbed_Nil: "undisturbed_with_id [] = []"
  by (simp add: undisturbed_with_id_def)

lemma with_id_loop_connected:
  "\<not> aborted st \<Longrightarrow> \<not> writableEnded st \<Longrightarrow>
   fst (custom_events_with_id_loop None i st) = (if i \<le> 5 then 5 else if i < 10 then 10 else i) \<and>
   \<not> aborted (snd (custom_events_with_id_loop None i st)) \<and>
   \<not> writableEnded (snd (custom_events_with_id_loop None i st)) \<and>
   log (snd (custom_events_with_id_loop None i st)) =
     log st @ undisturbed_with_id [i..(if i \<le> 5 then 5 else 9)]"
proof (induction "None :: nat option" i st rule: custom_events_with_id_loop.induct)
  case (1 i st)
  let ?st1 = "sleep 1000 None cleanup st"
  let ?st2 = "response_write (EventWithId (parity_name i) i i) ?st1"
  show ?case
  proof (cases "i < 10")
    case False
    then show ?thesis
      using "1.prems"
      by (simp add: custom_events_with_id_loop.simps [of None i st] undisturbed_Nil)
  next
    case lt: True
    show ?thesis
    proof (cases "i = 5")
      case True
      then show ?thesis
        using "1.prems"
        by (subst (1 2 3 4) custom_events_with_id_loop.simps)
           (simp add: Let_def undisturbed_Cons undisturbed_Nil)
    next
      case False
      have run: "custom_events_with_id_loop None i st = custom_events_with_id_loop None (i + 1) ?st2"
        using lt False "1.prems"
        by (simp add: custom_events_with_id_loop.simps [of None i st] Let_def)
      have ih: "fst (custom_events_with_id_loop None (i + 1) ?st2)
                  = (if i + 1 \<le> 5 then 5 else if i + 1 < 10 then 10 else i + 1) \<and>
                \<not> aborted (snd (custom_events_with_id_loop None (i + 1) ?st2)) \<and>
                \<not> writableEnded (snd (custom_events_with_id_loop None (i + 1) ?st2)) \<and>
                log (snd (custom_events_with_id_loop None (i + 1) ?st2)) =
                  log ?st2 @ undisturbed_with_id [i + 1..(if i + 1 \<le> 5 then 5 else 9)]"
        using "1.hyps" [OF lt _ refl _ refl False] "1.prems" by simp
      have up: "[i..(if i \<le> 5 then 5 else 9)] = i # [i + 1..(if i + 1 \<le> 5 then 5 else 9)]"
        using lt False by (simp add: upto_rec1)
      show ?thesis
        unfolding run up undisturbed_Cons using ih lt False "1.prems" by auto
    qed
  qed
qed

lemma init_state_simps [simp]:
  "\<not> aborted init_state" "\<not> writableEnded init_state" "log init_state = []"
  by (simp_all add: init_state_def)

lemma frames_append: "frames (xs @ ys) = frames xs @ frames ys"
  by (induction xs rule: frames.induct) simp_all

lemma event_ids_append: "event_ids (xs @ ys) = event_ids xs @ event_ids ys"
  by (induction xs rule: event_ids.induct) simp_all

lemma frames_undisturbed:
  "frames (undisturbed_with_id js) = map (\<lambda>j. EventWithId (parity_name j) j j) js"
  by (induction js) (simp_all add: undisturbed_Nil undisturbed_Cons)

lemma event_ids_map: "event_ids (map (\<lambda>j. EventWithId (parity_name j) j j) js) = js"
  by (induction js) simp_all

lemma closing_snoc2: "closing (xs @ [a, b]) = [a, b]"
  by (simp add: closing_def)

text \<open>The whole run of a client that stays connected.\<close>

lemma with_id_connected:
  assumes "accepts_event_stream req"
    and "resume_index (last_event_id req) = (i0, refused)"
  shows "custom_events_with_id req None =
           [WriteHead 200]
           @ (if refused then [Write (Comment ''Invalid Last-Event-Id, starting from 0'')] else [])
           @ undisturbed_with_id [i0..(if i0 \<le> 5 then 5 else 9)]
           @ (if 6 \<le> i0 \<and> i0 \<le> 10 then [Write Eom] else [])
           @ [End]"
proof -
  define st2 where "st2 = (if refused
      then response_write (Comment ''Invalid Last-Event-Id, starting from 0'') (emit (WriteHead 200) init_state)
      else emit (WriteHead 200) init_state)"
  have st2: "\<not> aborted st2" "\<not> writableEnded st2"
    "log st2 = [WriteHead 200] @ (if refused then [Write (Comment ''Invalid Last-Event-Id, starting from 0'')] else [])"
    by (simp_all add: st2_def)
  obtain i st3 where r: "custom_events_with_id_loop None i0 st2 = (i, st3)"
    by (cases "custom_events_with_id_loop None i0 st2")
  from with_id_loop_connected [OF st2(1) st2(2), of i0] r
  have i: "i = (if i0 \<le> 5 then 5 else if i0 < 10 then 10 else i0)"
    and st3: "\<not> aborted st3" "\<not> writableEnded st3"
    and l3: "log st3 = log st2 @ undisturbed_with_id [i0..(if i0 \<le> 5 then 5 else 9)]"
    by simp_all
  have ten: "i = 10 \<longleftrightarrow> 6 \<le> i0 \<and> i0 \<le> 10"
    using i by auto
  have "custom_events_with_id req None =
          log (response_end (if i = 10 \<and> \<not> aborted st3 then response_write Eom st3 else st3))"
    using assms r by (simp add: custom_events_with_id_def Let_def st2_def)
  also have "\<dots> = log st3 @ (if 6 \<le> i0 \<and> i0 \<le> 10 then [Write Eom] else []) @ [End]"
    using st3 ten by simp
  finally show ?thesis
    by (simp add: l3 st2(3))
qed

lemma with_id_past_end:
  assumes "accepts_event_stream req"
    and "resume_index (last_event_id req) = (i0, False)" and "10 \<le> i0"
  shows "custom_events_with_id req disc = (if i0 = 10 then [WriteHead 200, Write Eom, End] else [WriteHead 200, End])"
  using assms
  by (simp add: custom_events_with_id_def Let_def custom_events_with_id_loop.simps [of disc i0])

subsection \<open>Runs of a client that disconnects\<close>

lemma after_close_none: "ClientClosed \<notin> set tr \<Longrightarrow> after_close tr = []"
  by (induction tr) (auto simp: after_close_def)

lemma after_close_split: "ClientClosed \<notin> set pre \<Longrightarrow> after_close (pre @ ClientClosed # post) = post"
  by (induction pre) (auto simp: after_close_def)

lemma sleep_cleanup:
  assumes "connected st"
  shows "connected (sleep ms disc cleanup st) \<or> cut_off (sleep ms disc cleanup st)"
proof (cases "disc = Some (awaits st)")
  case True
  have "log (sleep ms disc cleanup st) = (log st @ [TimerSet ms]) @ [ClientClosed, End, TimerFired]"
    using True assms by (simp add: sleep_def cleanup_def connected_def Let_def)
  moreover have "aborted (sleep ms disc cleanup st)" "writableEnded (sleep ms disc cleanup st)"
    using True assms by (simp_all add: sleep_def cleanup_def connected_def Let_def)
  moreover have "ClientClosed \<notin> set (log st @ [TimerSet ms])"
    using assms by (simp add: connected_def)
  ultimately show ?thesis
    unfolding cut_off_def by blast
next
  case False
  then have "connected (sleep ms disc cleanup st)"
    using assms by (simp add: sleep_def connected_def Let_def)
  then show ?thesis ..
qed

lemma connected_write: "connected st \<Longrightarrow> connected (response_write f st)"
  by (simp add: connected_def)

lemma cut_off_aborted: "cut_off st \<Longrightarrow> aborted st"
  by (simp add: cut_off_def)

lemma connected_not_aborted: "connected st \<Longrightarrow> \<not> aborted st"
  by (simp add: connected_def)

lemma custom_events_loop_cases:
  "connected st \<Longrightarrow>
   connected (custom_events_loop disc i st) \<or> cut_off (custom_events_loop disc i st)"
proof (induction disc i st rule: custom_events_loop.induct)
  case (1 disc i st)
  let ?st1 = "sleep 1000 disc cleanup st"
  show ?case
  proof (cases "i < 10")
    case False
    then show ?thesis
      using "1.prems" by (simp add: custom_events_loop.simps [of disc i st])
  next
    case lt: True
    have na: "\<not> aborted st" using "1.prems" by (rule connected_not_aborted)
    from sleep_cleanup [OF "1.prems", of 1000 disc] show ?thesis
    proof
      assume c: "connected ?st1"
      then have na1: "\<not> aborted ?st1" by (rule connected_not_aborted)
      have run: "custom_events_loop disc i st =
                   custom_events_loop disc (i + 1) (response_write (Event (parity_name i) i) ?st1)"
        using lt na na1 by (simp add: custom_events_loop.simps [of disc i st] Let_def)
      show ?thesis
        unfolding run
        using "1.IH" [OF lt na refl na1] connected_write [OF c] by blast
    next
      assume c: "cut_off ?st1"
      then have "custom_events_loop disc i st = ?st1"
        using lt na cut_off_aborted [OF c]
        by (simp add: custom_events_loop.simps [of disc i st] Let_def)
      with c show ?thesis by simp
    qed
  qed
qed

lemma with_id_loop_cases:
  "connected st \<Longrightarrow>
   connected (snd (custom_events_with_id_loop disc i st))
   \<or> cut_off (snd (custom_events_with_id_loop disc i st))"
proof (induction disc i st rule: custom_events_with_id_loop.induct)
  case (1 disc i st)
  let ?st1 = "sleep 1000 disc cleanup st"
  let ?st2 = "response_write (EventWithId (parity_name i) i i) ?st1"
  show ?case
  proof (cases "i < 10")
    case False
    then show ?thesis
      using "1.prems" by (simp add: custom_events_with_id_loop.simps [of disc i st])
  next
    case lt: True
    have na: "\<not> aborted st" using "1.prems" by (rule connected_not_aborted)
    from sleep_cleanup [OF "1.prems", of 1000 disc] show ?thesis
    proof
      assume c: "connected ?st1"
      then have na1: "\<not> aborted ?st1" by (rule connected_not_aborted)
      show ?thesis
      proof (cases "i = 5")
        case True
        have "custom_events_with_id_loop disc i st = (i, ?st2)"
          using lt na na1 True by (subst custom_events_with_id_loop.simps) (simp add: Let_def)
        then show ?thesis
          using connected_write [OF c] by simp
      next
        case False
        have run: "custom_events_with_id_loop disc i st = custom_events_with_id_loop disc (i + 1) ?st2"
          using lt na na1 False by (simp add: custom_events_with_id_loop.simps [of disc i st] Let_def)
        show ?thesis
          unfolding run
          using "1.IH" [OF lt na refl na1 refl False] connected_write [OF c] by blast
      qed
    next
      assume c: "cut_off ?st1"
      then have "custom_events_with_id_loop disc i st = (i, ?st1)"
        using lt na cut_off_aborted [OF c]
        by (simp add: custom_events_with_id_loop.simps [of disc i st] Let_def)
      with c show ?thesis by simp
    qed
  qed
qed

text \<open>What the end of a handler adds to either kind of state.\<close>

lemma finish_connected:
  assumes "connected st"
  shows "ClientClosed \<notin> set (log (response_end (if b then response_write Eom st else st)))"
    and "log (response_end (if b then response_write Eom st else st))
           = log st @ (if b then [Write Eom] else []) @ [End]"
  using assms by (simp_all add: connected_def)

lemma finish_cut_off:
  assumes "cut_off st"
  shows "ClientClosed \<in> set (log (response_end st))"
    and "after_close (log (response_end st)) = [End, TimerFired]"
    and "closing (log (response_end st)) = [End, TimerFired]"
proof -
  from assms obtain pre where l: "log st = pre @ [ClientClosed, End, TimerFired]"
    and pre: "ClientClosed \<notin> set pre" and w: "writableEnded st"
    by (auto simp: cut_off_def)
  show "ClientClosed \<in> set (log (response_end st))"
    using l w by simp
  show "after_close (log (response_end st)) = [End, TimerFired]"
    using l w after_close_split [OF pre, of "[End, TimerFired]"] by simp
  have "log (response_end st) = (pre @ [ClientClosed]) @ [End, TimerFired]"
    using l w by simp
  then show "closing (log (response_end st)) = [End, TimerFired]"
    by (simp only: closing_snoc2)
qed

lemma custom_events_connected_start: "connected (emit (WriteHead 200) init_state)"
  by (simp add: connected_def)

lemma custom_events_shape:
  assumes "accepts_event_stream req"
  shows "(ClientClosed \<in> set (custom_events req disc) \<longrightarrow>
            after_close (custom_events req disc) = [End, TimerFired]
            \<and> closing (custom_events req disc) = [End, TimerFired])
       \<and> (ClientClosed \<notin> set (custom_events req disc) \<longrightarrow>
            after_close (custom_events req disc) = []
            \<and> closing (custom_events req disc) = [Write Eom, End])"
proof -
  let ?st2 = "custom_events_loop disc 0 (emit (WriteHead 200) init_state)"
  from custom_events_loop_cases [OF custom_events_connected_start, of disc 0]
  show ?thesis
  proof
    assume c: "connected ?st2"
    then have na: "\<not> aborted ?st2" by (rule connected_not_aborted)
    have tr: "custom_events req disc = log (response_end (if True then response_write Eom ?st2 else ?st2))"
      using assms na by (simp add: custom_events_def Let_def)
    have l: "custom_events req disc = log ?st2 @ [Write Eom, End]"
      unfolding tr finish_connected(2) [OF c] by simp
    have n: "ClientClosed \<notin> set (custom_events req disc)"
      unfolding tr by (rule finish_connected(1) [OF c])
    show ?thesis
      using n after_close_none [OF n] l closing_snoc2 [of "log ?st2" "Write Eom" End] by simp
  next
    assume c: "cut_off ?st2"
    then have a: "aborted ?st2" by (rule cut_off_aborted)
    have tr: "custom_events req disc = log (response_end ?st2)"
      using assms a by (simp add: custom_events_def Let_def)
    show ?thesis
      unfolding tr using finish_cut_off [OF c] by simp
  qed
qed

lemma with_id_shape:
  assumes "accepts_event_stream req"
  shows "after_close (custom_events_with_id req disc)
           = (if ClientClosed \<in> set (custom_events_with_id req disc) then [End, TimerFired] else [])"
proof -
  obtain i0 refused where ri: "resume_index (last_event_id req) = (i0, refused)"
    by (cases "resume_index (last_event_id req)")
  define st2 where "st2 = (if refused
      then response_write (Comment ''Invalid Last-Event-Id, starting from 0'') (emit (WriteHead 200) init_state)
      else emit (WriteHead 200) init_state)"
  have c2: "connected st2"
    by (simp add: st2_def connected_def)
  obtain i st3 where r: "custom_events_with_id_loop disc i0 st2 = (i, st3)"
    by (cases "custom_events_with_id_loop disc i0 st2")
  have tr: "custom_events_with_id req disc =
          log (response_end (if i = 10 \<and> \<not> aborted st3 then response_write Eom st3 else st3))"
    using assms r ri by (simp add: custom_events_with_id_def Let_def st2_def)
  from with_id_loop_cases [OF c2, of disc i0] r have "connected st3 \<or> cut_off st3"
    by simp
  then show ?thesis
  proof
    assume c: "connected st3"
    have n: "ClientClosed \<notin> set (custom_events_with_id req disc)"
      unfolding tr by (rule finish_connected(1) [OF c])
    show ?thesis
      using n after_close_none [OF n] by simp
  next
    assume c: "cut_off st3"
    then have a: "aborted st3" by (rule cut_off_aborted)
    have tr': "custom_events_with_id req disc = log (response_end st3)"
      unfolding tr using a by simp
    show ?thesis
      unfolding tr' using finish_cut_off [OF c] by simp
  qed
qed

lemma data_only_loop_open:
  "\<not> writableEnded st \<Longrightarrow> \<not> writableEnded (data_only_loop disc i st)"
proof (induction disc i st rule: data_only_loop.induct)
  case (1 disc i st)
  show ?case
  proof (cases "i < 10")
    case True
    have "\<not> writableEnded (response_write (Data (''Data '' @ js_show i)) (sleep 1000 disc (\<lambda>s. s) st))"
      using "1.prems" by (simp add: sleep_def Let_def)
    from "1.IH" [OF True refl refl this] True show ?thesis
      by (simp add: data_only_loop.simps [of disc i st] Let_def)
  next
    case False
    then show ?thesis
      using "1.prems" by (simp add: data_only_loop.simps [of disc i st])
  qed
qed

lemma data_only_closing: "closing (data_only disc) = [Write EmptyData, End]"
proof -
  let ?st3 = "data_only_loop disc 0 (response_write (Comment ''Let's get started'') (emit (WriteHead 200) init_state))"
  have "\<not> writableEnded ?st3"
    by (rule data_only_loop_open) simp
  then have "data_only disc = log ?st3 @ [Write EmptyData, End]"
    by (simp add: data_only_def Let_def)
  then show ?thesis
    by (simp only: closing_snoc2)
qed

subsection \<open>The text of a frame\<close>

lemma wire_eom: "wire Eom = ''event: eom\<newline>data\<newline>\<newline>''"
  by (simp add: nl_def)

lemma wire_event_with_id:
  "wire (EventWithId (parity_name 7) 7 7)
     = ''event: odd\<newline>data: { '' @ [CHR 0x22] @ ''value'' @ [CHR 0x22] @ '': 7 }\<newline>id: 7\<newline>\<newline>''"
  by code_simp

subsection \<open>More facts on traces\<close>

lemma eom_not_undisturbed: "Write Eom \<notin> set (undisturbed_with_id js)"
  by (induction js) (simp_all add: undisturbed_Nil undisturbed_Cons)

lemma resume_index_refused: "resume_index h = (i0, True) \<Longrightarrow> i0 = 0"
  by (auto simp: resume_index_def split: option.splits if_splits)

lemma upto_0_5: "[0..5] = [0, 1, 2, 3, 4, (5::int)]"
  by code_simp

lemma with_id_closing:
  assumes "accepts_event_stream req"
  shows "(6 \<le> fst (resume_index (last_event_id req)) \<and> fst (resume_index (last_event_id req)) \<le> 10 \<longrightarrow>
            closing (custom_events_with_id req None) = [Write Eom, End])
       \<and> (fst (resume_index (last_event_id req)) \<le> 5 \<longrightarrow>
            closing (custom_events_with_id req None) = [Write (EventWithId (parity_name 5) 5 5), End]
            \<and> Write Eom \<notin> set (custom_events_with_id req None))
       \<and> (10 < fst (resume_index (last_event_id req)) \<longrightarrow>
            custom_events_with_id req None = [WriteHead 200, End])"
proof -
  obtain i0 refused where ri: "resume_index (last_event_id req) = (i0, refused)"
    by (cases "resume_index (last_event_id req)")
  note tr = with_id_connected [OF assms ri]
  let ?cm = "if refused then [Write (Comment ''Invalid Last-Event-Id, starting from 0'')] else []"
  have a: "closing (custom_events_with_id req None) = [Write Eom, End]" if "6 \<le> i0" "i0 \<le> 10"
  proof -
    have "custom_events_with_id req None
            = ([WriteHead 200] @ ?cm @ undisturbed_with_id [i0..9]) @ [Write Eom, End]"
      unfolding tr using that by simp
    then show ?thesis by (simp only: closing_snoc2)
  qed
  have b: "closing (custom_events_with_id req None) = [Write (EventWithId (parity_name 5) 5 5), End]
           \<and> Write Eom \<notin> set (custom_events_with_id req None)" if "i0 \<le> 5"
  proof -
    have "[i0..5] = [i0..4] @ [5]"
      using that upto_rec2 [of i0 5] by simp
    then have "undisturbed_with_id [i0..5]
                 = undisturbed_with_id [i0..4] @ [TimerSet 1000, TimerFired, Write (EventWithId (parity_name 5) 5 5)]"
      by (simp add: undisturbed_with_id_def)
    then have "custom_events_with_id req None
            = ([WriteHead 200] @ ?cm @ undisturbed_with_id [i0..4] @ [TimerSet 1000, TimerFired])
              @ [Write (EventWithId (parity_name 5) 5 5), End]"
      unfolding tr using that by simp
    then have "closing (custom_events_with_id req None) = [Write (EventWithId (parity_name 5) 5 5), End]"
      by (simp only: closing_snoc2)
    moreover have "Write Eom \<notin> set (custom_events_with_id req None)"
      unfolding tr using that eom_not_undisturbed by simp
    ultimately show ?thesis ..
  qed
  have c: "custom_events_with_id req None = [WriteHead 200, End]" if "10 < i0"
  proof -
    have "\<not> refused" using resume_index_refused [of "last_event_id req" i0] ri that by auto
    then show ?thesis
      unfolding tr using that by (simp add: undisturbed_Nil)
  qed
  show ?thesis
    using a b c by (simp add: ri)
qed

subsection \<open>The claims on the event streams\<close>

text \<open>
  Claim C1, as the code has it. A client that stays connected resumes the stream of
  \<open>/custom-events-with-id\<close> with \<open>Last-Event-Id: k\<close>, \<open>k\<close> from 0 to 9 written as
  a decimal numeral, and the request accepts \<open>text/event-stream\<close>. The frames written
  are the events \<open>k + 1\<close> to 9 in increasing order, each once, followed by \<open>eom\<close>,
  when \<open>k\<close> is 5 or more; for a smaller \<open>k\<close> they are the events \<open>k + 1\<close> to 5
  only, because the handler leaves its loop after the event 5.
\<close>

theorem resume_after_cursor:
  assumes "accepts_event_stream req" and "last_event_id req = Some (decimal k)" and "k \<le> 9"
  shows "frames (custom_events_with_id req None) =
           map (\<lambda>j. EventWithId (parity_name j) j j) [int k + 1..(if k < 5 then 5 else 9)]
           @ (if 5 \<le> k then [Eom] else [])
         \<and> event_ids (frames (custom_events_with_id req None)) = [int k + 1..(if k < 5 then 5 else 9)]"
proof -
  have ri: "resume_index (last_event_id req) = (int k + 1, False)"
    using assms(2) by (simp add: resume_index_decimal)
  have hi: "(if int k + 1 \<le> 5 then 5 else 9) = (if k < 5 then 5 else (9::int))"
    by auto
  have eom: "(6 \<le> int k + 1 \<and> int k + 1 \<le> 10) = (5 \<le> k)"
    using assms(3) by auto
  show ?thesis
    unfolding with_id_connected [OF assms(1) ri] hi eom
    by (simp add: frames_append frames_undisturbed event_ids_append event_ids_map)
qed

theorem resume_after_cursor_witness:
  "accepts_event_stream \<lparr>accepts_event_stream = True, last_event_id = Some ''5''\<rparr>
   \<and> last_event_id \<lparr>accepts_event_stream = True, last_event_id = Some ''5''\<rparr> = Some (decimal 5)
   \<and> (5::nat) \<le> 9
   \<and> event_ids (frames (custom_events_with_id
        \<lparr>accepts_event_stream = True, last_event_id = Some ''5''\<rparr> None)) = [6, 7, 8, 9]"
proof -
  have d: "decimal 5 = ''5''" by code_simp
  have u: "[int 5 + 1..9] = [6, 7, 8, 9]" by code_simp
  show ?thesis
    using resume_after_cursor [of "\<lparr>accepts_event_stream = True, last_event_id = Some ''5''\<rparr>" 5] d u
    by simp
qed

text \<open>
  The claim as it is written fails at \<open>k = 0\<close>: the events 6 to 9 are not written.
\<close>

theorem resume_after_cursor_counterexample:
  "decimal 0 = ''0''
   \<and> event_ids (frames (custom_events_with_id
        \<lparr>accepts_event_stream = True, last_event_id = Some ''0''\<rparr> None)) = [1, 2, 3, 4, 5]
   \<and> event_ids (frames (custom_events_with_id
        \<lparr>accepts_event_stream = True, last_event_id = Some ''0''\<rparr> None)) \<noteq> [0 + 1..9]"
  by code_simp

text \<open>
  Claim C6, as the code has it. The request accepts \<open>text/event-stream\<close> and the client
  stays connected. When the \<open>Last-Event-Id\<close> header is absent, or \<open>parseInt\<close> finds
  no number at its start (as in \<open>abc\<close>), or finds a negative one (as in \<open>-3\<close>), the
  handler answers 200 and writes the events from id 0 on (0 to 5, where its loop ends); it
  writes the comment about the invalid header before them exactly when the header is there
  and not empty.
\<close>

theorem refused_cursor_restarts:
  assumes "accepts_event_stream req"
    and "case last_event_id req of
           None \<Rightarrow> True
         | Some h \<Rightarrow> parseInt10 h = None \<or> (\<exists>p. parseInt10 h = Some p \<and> p < 0)"
  shows "custom_events_with_id req None =
           [WriteHead 200]
           @ (if truthy_string (last_event_id req)
              then [Write (Comment ''Invalid Last-Event-Id, starting from 0'')] else [])
           @ undisturbed_with_id [0, 1, 2, 3, 4, 5] @ [End]
         \<and> event_ids (frames (custom_events_with_id req None)) = [0, 1, 2, 3, 4, 5]"
proof -
  have ri: "resume_index (last_event_id req) = (0, truthy_string (last_event_id req))"
    using assms(2) by (auto simp: resume_index_def truthy_string_def split: option.splits)
  show ?thesis
    unfolding with_id_connected [OF assms(1) ri]
    by (simp add: upto_0_5 frames_append frames_undisturbed event_ids_append event_ids_map
        del: upto.simps)
qed

theorem refused_cursor_restarts_witness:
  "parseInt10 ''abc'' = None
   \<and> event_ids (frames (custom_events_with_id
        \<lparr>accepts_event_stream = True, last_event_id = Some ''abc''\<rparr> None)) = [0, 1, 2, 3, 4, 5]
   \<and> parseInt10 ''-3'' = Some (- 3)
   \<and> event_ids (frames (custom_events_with_id
        \<lparr>accepts_event_stream = True, last_event_id = Some ''-3''\<rparr> None)) = [0, 1, 2, 3, 4, 5]
   \<and> event_ids (frames (custom_events_with_id
        \<lparr>accepts_event_stream = True, last_event_id = None\<rparr> None)) = [0, 1, 2, 3, 4, 5]"
proof -
  have p: "parseInt10 ''abc'' = None" "parseInt10 ''-3'' = Some (- 3)"
    by code_simp+
  show ?thesis
    using p
      refused_cursor_restarts [of "\<lparr>accepts_event_stream = True, last_event_id = Some ''abc''\<rparr>",
        THEN conjunct2]
      refused_cursor_restarts [of "\<lparr>accepts_event_stream = True, last_event_id = Some ''-3''\<rparr>",
        THEN conjunct2]
      refused_cursor_restarts [of "\<lparr>accepts_event_stream = True, last_event_id = None\<rparr>",
        THEN conjunct2]
    by simp
qed

text \<open>
  The claim as it is written fails at the header \<open>5xyz\<close>, which is not a number:
  \<open>parseInt\<close> reads the 5, the handler writes no comment and goes on from the event 6.
\<close>

theorem refused_cursor_restarts_counterexample:
  "\<not> is_numeral ''5xyz''
   \<and> custom_events_with_id \<lparr>accepts_event_stream = True, last_event_id = Some ''5xyz''\<rparr> None
       = [WriteHead 200] @ undisturbed_with_id [6, 7, 8, 9] @ [Write Eom, End]
   \<and> event_ids (frames (custom_events_with_id
        \<lparr>accepts_event_stream = True, last_event_id = Some ''5xyz''\<rparr> None)) = [6, 7, 8, 9]"
  by code_simp

text \<open>
  How each handler ends a run. \<open>/data-only\<close> always ends with the empty data-only
  event and then the end of the response. \<open>/custom-events\<close> ends with \<open>eom\<close> and
  then the end of the response unless the client disconnected during the run.
  \<open>/custom-events-with-id\<close>, for a client that stays connected, ends with \<open>eom\<close>
  and then the end of the response when its loop starts at an index from 6 to 10; started
  at 5 or below it ends the response right after the event 5, without \<open>eom\<close>;
  started above 10 it writes nothing and ends the response.
\<close>

lemma sentinel_cases:
  "closing (data_only disc) = [Write EmptyData, End]
   \<and> (accepts_event_stream req \<longrightarrow>
        closing (custom_events req disc)
          = (if ClientClosed \<in> set (custom_events req disc) then [End, TimerFired] else [Write Eom, End]))
   \<and> (accepts_event_stream req \<longrightarrow>
        (6 \<le> fst (resume_index (last_event_id req)) \<and> fst (resume_index (last_event_id req)) \<le> 10 \<longrightarrow>
           closing (custom_events_with_id req None) = [Write Eom, End])
        \<and> (fst (resume_index (last_event_id req)) \<le> 5 \<longrightarrow>
             closing (custom_events_with_id req None) = [Write (EventWithId (parity_name 5) 5 5), End]
             \<and> Write Eom \<notin> set (custom_events_with_id req None))
        \<and> (10 < fst (resume_index (last_event_id req)) \<longrightarrow>
             custom_events_with_id req None = [WriteHead 200, End]))"
proof (intro conjI impI)
  show "closing (data_only disc) = [Write EmptyData, End]"
    by (rule data_only_closing)
next
  assume a: "accepts_event_stream req"
  show "closing (custom_events req disc)
          = (if ClientClosed \<in> set (custom_events req disc) then [End, TimerFired] else [Write Eom, End])"
    using custom_events_shape [OF a, of disc] by simp
next
  assume a: "accepts_event_stream req"
    and "6 \<le> fst (resume_index (last_event_id req)) \<and> fst (resume_index (last_event_id req)) \<le> 10"
  then show "closing (custom_events_with_id req None) = [Write Eom, End]"
    using with_id_closing [OF a] by simp
next
  assume a: "accepts_event_stream req" and "fst (resume_index (last_event_id req)) \<le> 5"
  then show "closing (custom_events_with_id req None) = [Write (EventWithId (parity_name 5) 5 5), End]"
    using with_id_closing [OF a] by simp
next
  assume a: "accepts_event_stream req" and "fst (resume_index (last_event_id req)) \<le> 5"
  then show "Write Eom \<notin> set (custom_events_with_id req None)"
    using with_id_closing [OF a] by simp
next
  assume a: "accepts_event_stream req" and "10 < fst (resume_index (last_event_id req))"
  then show "custom_events_with_id req None = [WriteHead 200, End]"
    using with_id_closing [OF a] by simp
qed

text \<open>
  Claim C7 does not hold of the code for a cursor of 10 or more. With
  \<open>Last-Event-Id: 10\<close> the loop of \<open>/custom-events-with-id\<close> would start at 11:
  the run has no event to deliver and delivers none, the client stays connected, and the
  response is ended without the sentinel, because the handler writes \<open>eom\<close> only when
  \<open>i\<close> is exactly 10. With the cursor 9, where nothing is left to deliver either,
  \<open>eom\<close> is written.
\<close>

theorem sentinel_missing_past_end:
  "fst (resume_index (Some ''10'')) = 11
   \<and> event_ids (frames (custom_events_with_id
        \<lparr>accepts_event_stream = True, last_event_id = Some ''10''\<rparr> None)) = [11..9]
   \<and> ClientClosed \<notin> set (custom_events_with_id
        \<lparr>accepts_event_stream = True, last_event_id = Some ''10''\<rparr> None)
   \<and> custom_events_with_id \<lparr>accepts_event_stream = True, last_event_id = Some ''10''\<rparr> None
       = [WriteHead 200, End]
   \<and> custom_events_with_id \<lparr>accepts_event_stream = True, last_event_id = Some ''9''\<rparr> None
       = [WriteHead 200, Write Eom, End]"
  by code_simp

text \<open>
  Claim C8, as the code has it. In \<open>/custom-events\<close> and \<open>/custom-events-with-id\<close>,
  once the \<open>close\<close> event of the response has been delivered, the run does two more
  things and no other: the listener ends the response, and the timer of the wait in
  progress fires (it is not cancelled; the loop is left when it has fired). No frame is
  written and no new timer is set after the event. \<open>/data-only\<close> registers no listener.
\<close>

theorem nothing_written_after_close:
  "(accepts_event_stream req \<longrightarrow>
      after_close (custom_events req disc)
        = (if ClientClosed \<in> set (custom_events req disc) then [End, TimerFired] else []))
   \<and> (accepts_event_stream req \<longrightarrow>
      after_close (custom_events_with_id req disc)
        = (if ClientClosed \<in> set (custom_events_with_id req disc) then [End, TimerFired] else []))"
proof (intro conjI impI)
  assume a: "accepts_event_stream req"
  show "after_close (custom_events req disc)
          = (if ClientClosed \<in> set (custom_events req disc) then [End, TimerFired] else [])"
    using custom_events_shape [OF a, of disc] by simp
  show "after_close (custom_events_with_id req disc)
          = (if ClientClosed \<in> set (custom_events_with_id req disc) then [End, TimerFired] else [])"
    by (rule with_id_shape [OF a])
qed

theorem nothing_written_after_close_witness:
  "ClientClosed \<in> set (custom_events \<lparr>accepts_event_stream = True, last_event_id = None\<rparr> (Some 2))
   \<and> after_close (custom_events \<lparr>accepts_event_stream = True, last_event_id = None\<rparr> (Some 2))
       = [End, TimerFired]
   \<and> ClientClosed \<in> set (custom_events_with_id \<lparr>accepts_event_stream = True, last_event_id = None\<rparr> (Some 2))
   \<and> after_close (custom_events_with_id \<lparr>accepts_event_stream = True, last_event_id = None\<rparr> (Some 2))
       = [End, TimerFired]"
proof -
  have c: "ClientClosed \<in> set (custom_events \<lparr>accepts_event_stream = True, last_event_id = None\<rparr> (Some 2))"
    "ClientClosed \<in> set (custom_events_with_id \<lparr>accepts_event_stream = True, last_event_id = None\<rparr> (Some 2))"
    by code_simp+
  show ?thesis
    using c nothing_written_after_close [of "\<lparr>accepts_event_stream = True, last_event_id = None\<rparr>" "Some 2"]
    by simp
qed

text \<open>
  The claim as it is written fails twice. In \<open>/custom-events\<close> the timer that was
  running when the client disconnected still fires afterwards. In \<open>/data-only\<close> the
  disconnect goes unnoticed and every later frame is written.
\<close>

theorem nothing_written_after_close_counterexample:
  "custom_events \<lparr>accepts_event_stream = True, last_event_id = None\<rparr> (Some 0)
     = [WriteHead 200, TimerSet 1000, ClientClosed, End, TimerFired]
   \<and> TimerFired \<in> set (after_close
        (custom_events \<lparr>accepts_event_stream = True, last_event_id = None\<rparr> (Some 0)))
   \<and> Write (Data ''Data 0'') \<in> set (after_close (data_only (Some 0)))
   \<and> TimerSet 1000 \<in> set (after_close (data_only (Some 0)))"
  by code_simp

text \<open>
  Claim C10. A request to \<open>/custom-events-with-id\<close> that accepts \<open>text/event-stream\<close>
  and carries \<open>Last-Event-Id: k\<close> with \<open>k\<close> at least 9 makes the handler write no
  event, whatever the client does. For \<open>k = 9\<close> it writes \<open>eom\<close> and ends the
  response; for \<open>k\<close> of 10 or more it ends the response without \<open>eom\<close>.
\<close>

theorem cursor_past_end:
  assumes "accepts_event_stream req" and "last_event_id req = Some (decimal k)" and "9 \<le> k"
  shows "custom_events_with_id req disc =
           (if k = 9 then [WriteHead 200, Write Eom, End] else [WriteHead 200, End])"
proof -
  have ri: "resume_index (last_event_id req) = (int k + 1, False)"
    using assms(2) by (simp add: resume_index_decimal)
  show ?thesis
    using with_id_past_end [OF assms(1) ri, of disc] assms(3) by auto
qed

theorem cursor_past_end_witness:
  "accepts_event_stream \<lparr>accepts_event_stream = True, last_event_id = Some ''10''\<rparr>
   \<and> last_event_id \<lparr>accepts_event_stream = True, last_event_id = Some ''10''\<rparr> = Some (decimal 10)
   \<and> (9::nat) \<le> 10
   \<and> custom_events_with_id \<lparr>accepts_event_stream = True, last_event_id = Some ''10''\<rparr> (Some 0)
       = [WriteHead 200, End]
   \<and> last_event_id \<lparr>accepts_event_stream = True, last_event_id = Some ''9''\<rparr> = Some (decimal 9)
   \<and> custom_events_with_id \<lparr>accepts_event_stream = True, last_event_id = Some ''9''\<rparr> None
       = [WriteHead 200, Write Eom, End]"
proof -
  have d: "decimal 10 = ''10''" "decimal 9 = ''9''" by code_simp+
  show ?thesis
    using cursor_past_end [of "\<lparr>accepts_event_stream = True, last_event_id = Some ''10''\<rparr>" 10 "Some 0"]
      cursor_past_end [of "\<lparr>accepts_event_stream = True, last_event_id = Some ''9''\<rparr>" 9 None] d
    by simp
qed

section \<open>Properties of the /mcp endpoints\<close>

subsection \<open>Looking a session up\<close>

lemma session_lookup_unknown:
  assumes "case sid of None \<Rightarrow> True | Some s \<Rightarrow> transports s = None \<and> s \<notin> set object_prototype_keys"
  shows "session_lookup transports sid = Undefined"
  using assms by (auto simp: session_lookup_def get_property_def split: option.splits)

lemma session_lookup_live:
  assumes "transports s = Some t" and "s \<noteq> []"
  shows "session_lookup transports (Some s) = Own t"
  using assms by (simp add: session_lookup_def get_property_def)

text \<open>
  A request that names no session of the registry and does not ask for initialisation is
  answered with 400 and the JSON-RPC error -32000 by both POST handlers, which leave the
  registry alone and call no transport; this needs the session id not to be the name of a
  member of \<open>Object.prototype\<close>.
\<close>

lemma post_unknown_session_rejected:
  assumes "case session_id_header req of
             None \<Rightarrow> True
           | Some s \<Rightarrow> transports s = None \<and> s \<notin> set object_prototype_keys"
  shows "\<not> is_initialize_request req \<longrightarrow>
           mcpPostHandler sdk transports req = (Responded bad_request_no_session, transports)"
    and "body_method req \<noteq> Some ''initialize'' \<longrightarrow>
           app_post sdk transports req = (Responded bad_request_no_session, transports)"
proof -
  let ?sid = "if truthy_string (session_id_header req) then session_id_header req else None"
  have "case ?sid of None \<Rightarrow> True | Some s \<Rightarrow> transports s = None \<and> s \<notin> set object_prototype_keys"
    using assms by (simp split: option.splits)
  then have "session_lookup transports ?sid = Undefined"
    by (rule session_lookup_unknown)
  then show "\<not> is_initialize_request req \<longrightarrow>
           mcpPostHandler sdk transports req = (Responded bad_request_no_session, transports)"
    by (simp add: mcpPostHandler_def catch_demo_def Let_def)
  have "session_lookup transports (session_id_header req) = Undefined"
    using assms by (rule session_lookup_unknown)
  then show "body_method req \<noteq> Some ''initialize'' \<longrightarrow>
           app_post sdk transports req = (Responded bad_request_no_session, transports)"
    by (simp add: app_post_def)
qed

text \<open>Every handler keeps the registry well keyed, whatever the transports do.\<close>

lemma well_keyed_delete: "well_keyed transports \<Longrightarrow> well_keyed (delete_property transports k)"
  by (simp add: well_keyed_def delete_property_def)

lemma well_keyed_onclose:
  "well_keyed transports \<Longrightarrow> well_keyed (onclose_demo transports t)"
  "well_keyed transports \<Longrightarrow> well_keyed (onclose_auth transports t)"
  by (simp_all add: onclose_demo_def onclose_auth_def Let_def well_keyed_delete)

lemma well_keyed_handleRequest:
  assumes "well_keyed transports" and "\<And>r u. well_keyed r \<Longrightarrow> well_keyed (onclose r u)"
  shows "well_keyed (snd (handleRequest sdk onclose extra store transports t req))"
proof (cases "sdk store t req")
  case (Raised b)
  then show ?thesis
    using assms(1) by (simp add: handleRequest_def)
next
  case (Completed reply initialized closed)
  let ?t1 = "case initialized of None \<Rightarrow> t | Some sid \<Rightarrow> t\<lparr>transport_sessionId := Some sid\<rparr>"
  let ?r1 = "case initialized of None \<Rightarrow> transports | Some sid \<Rightarrow> transports(sid \<mapsto> ?t1)"
  have r1: "well_keyed ?r1"
    using assms(1) by (auto simp: well_keyed_def split: option.splits)
  have "snd (handleRequest sdk onclose extra store transports t req)
          = (if closed then onclose ?r1 ?t1 else ?r1)"
    using Completed by (simp add: handleRequest_def Let_def)
  then show ?thesis
    using r1 assms(2) [OF r1] by simp
qed

lemma well_keyed_handle_demo:
  "well_keyed transports \<Longrightarrow>
   well_keyed (snd (handleRequest sdk onclose_demo extra store transports t req))"
  by (rule well_keyed_handleRequest) (simp_all add: well_keyed_onclose)

lemma well_keyed_handle_auth:
  "well_keyed transports \<Longrightarrow>
   well_keyed (snd (handleRequest sdk onclose_auth extra store transports t req))"
  by (rule well_keyed_handleRequest) (simp_all add: well_keyed_onclose)

lemma snd_catch_demo: "snd (catch_demo r) = snd r"
  by (cases r) (auto simp: catch_demo_def)

lemma snd_drop_flag: "snd (drop_flag r) = snd r"
  by (cases r) (auto simp: drop_flag_def)

lemma well_keyed_mcpPostHandler:
  assumes "well_keyed transports"
  shows "well_keyed (snd (mcpPostHandler sdk transports req))"
  using assms well_keyed_handle_demo [OF assms]
  by (simp add: mcpPostHandler_def Let_def snd_catch_demo split: property.splits)

lemma well_keyed_mcpGetHandler:
  assumes "well_keyed transports"
  shows "well_keyed (snd (mcpGetHandler sdk transports req))"
proof (cases "session_lookup transports (session_id_header req)")
  case (Own t)
  obtain out b r where h: "handleRequest sdk onclose_demo (\<lambda>sid. []) None transports t req = ((out, b), r)"
    by (metis prod.collapse)
  then have "well_keyed r"
    using well_keyed_handle_demo [OF assms, of sdk "\<lambda>sid. []" None t req] by simp
  then show ?thesis
    using Own h by (simp add: mcpGetHandler_def)
qed (simp_all add: mcpGetHandler_def assms)

lemma well_keyed_app_post:
  assumes "well_keyed transports"
  shows "well_keyed (snd (app_post sdk transports req))"
  using assms well_keyed_handle_auth [OF assms]
  by (simp add: app_post_def Let_def runWithAuthContext_def snd_drop_flag split: property.splits)

lemma well_keyed_handleSessionRequest:
  assumes "well_keyed transports"
  shows "well_keyed (snd (handleSessionRequest sdk transports req))"
  using assms well_keyed_handle_auth [OF assms]
  by (simp add: handleSessionRequest_def Let_def runWithAuthContext_def snd_drop_flag
      split: property.splits)

lemma well_keyed_handlers:
  assumes "well_keyed transports"
  shows "well_keyed (snd (demo_mcp sdk transports req))"
    and "well_keyed (snd (auth_mcp env validateToken sdk transports req))"
proof -
  show "well_keyed (snd (demo_mcp sdk transports req))"
    using assms well_keyed_mcpPostHandler [OF assms] well_keyed_mcpGetHandler [OF assms]
    by (simp add: demo_mcp_def mcpMethodNotAllowedHandler_def split: http_method.splits option.splits)
  show "well_keyed (snd (auth_mcp env validateToken sdk transports req))"
    using assms well_keyed_app_post [OF assms] well_keyed_handleSessionRequest [OF assms]
    by (simp add: auth_mcp_def split: middleware_result.splits http_method.splits option.splits)
qed

lemma well_keyed_empty: "well_keyed Map.empty"
  by (simp add: well_keyed_def)

lemma bad_request_envelope:
  "status bad_request_no_session = 400"
  "body bad_request_no_session
     = Json \<lparr>jsonrpc = ''2.0'',
             error = \<lparr>code = - 32000, message = ''Bad Request: No valid session ID provided''\<rparr>,
             rpc_id = None\<rparr>"
  by (simp_all add: bad_request_no_session_def getJsonRpcError_def NO_VALID_SESSION_ID_ERROR_def)

subsection \<open>The claims on the /mcp endpoints\<close>

text \<open>
  Claim C3 does not hold of the code when the session id is the name of a member of
  \<open>Object.prototype\<close>. A POST with \<open>Mcp-Session-Id: constructor\<close> and a body that is
  not an initialize request names no live transport (the registry is empty here), yet
  the lookup is truthy and the handlers go on to call \<open>handleRequest\<close> on what they
  found: the DemoServer answers 500 with the error -32603, the 4-auth handler throws.
  Neither answers 400.
\<close>

theorem post_inherited_key_not_rejected:
  "\<forall>sdk. mcpPostHandler sdk Map.empty
       \<lparr>http_method = POST, authorization = None, session_id_header = Some ''constructor'',
        body_method = Some ''tools/list'', is_initialize_request = False, body_parser_error = None,
        req_token = None, req_tokenClaims = None, req_isAuthenticated = None\<rparr>
       = (Responded \<lparr>status = 500, headers = [],
            body = Json \<lparr>jsonrpc = ''2.0'',
                     error = \<lparr>code = - 32603, message = ''Internal server error''\<rparr>,
                     rpc_id = None\<rparr>\<rparr>, Map.empty)
     \<and> app_post sdk Map.empty
       \<lparr>http_method = POST, authorization = None, session_id_header = Some ''constructor'',
        body_method = Some ''tools/list'', is_initialize_request = False, body_parser_error = None,
        req_token = None, req_tokenClaims = None, req_isAuthenticated = None\<rparr>
       = (Threw, Map.empty)"
  by (simp add: mcpPostHandler_def app_post_def catch_demo_def session_lookup_def get_property_def
      truthy_string_def object_prototype_keys_def internal_server_error_def getJsonRpcError_def
      INTERNAL_SERVER_ERROR_def)

text \<open>
  Claim C9. The cleanup that the handlers register as \<open>onclose\<close> removes the
  transport's session id from the registry. Running it twice leaves the registry as running
  it once does, and running it when the id is not in the registry changes nothing.
\<close>

theorem onclose_idempotent:
  "onclose_demo (onclose_demo transports t) t = onclose_demo transports t
   \<and> onclose_auth (onclose_auth transports t) t = onclose_auth transports t
   \<and> (transport_sessionId t = Some sid \<longrightarrow> transports sid = None \<longrightarrow>
        onclose_demo transports t = transports \<and> onclose_auth transports t = transports)"
proof (intro conjI impI)
  show "onclose_demo (onclose_demo transports t) t = onclose_demo transports t"
    by (simp add: onclose_demo_def delete_property_def Let_def)
  show "onclose_auth (onclose_auth transports t) t = onclose_auth transports t"
    by (simp add: onclose_auth_def delete_property_def)
next
  assume "transport_sessionId t = Some sid" and "transports sid = None"
  then show "onclose_demo transports t = transports"
    by (simp add: onclose_demo_def delete_property_def Let_def fun_upd_idem)
next
  assume "transport_sessionId t = Some sid" and "transports sid = None"
  then show "onclose_auth transports t = transports"
    by (simp add: onclose_auth_def delete_property_def fun_upd_idem)
qed

theorem onclose_idempotent_witness:
  "transport_sessionId \<lparr>transport_sessionId = Some ''s1''\<rparr> = Some ''s1''
   \<and> (Map.empty :: registry) ''s1'' = None
   \<and> onclose_demo Map.empty \<lparr>transport_sessionId = Some ''s1''\<rparr> = Map.empty
   \<and> onclose_auth Map.empty \<lparr>transport_sessionId = Some ''s1''\<rparr> = Map.empty
   \<and> onclose_demo (onclose_demo [''s1'' \<mapsto> \<lparr>transport_sessionId = Some ''s1''\<rparr>]
        \<lparr>transport_sessionId = Some ''s1''\<rparr>) \<lparr>transport_sessionId = Some ''s1''\<rparr>
       = onclose_demo [''s1'' \<mapsto> \<lparr>transport_sessionId = Some ''s1''\<rparr>] \<lparr>transport_sessionId = Some ''s1''\<rparr>"
  using onclose_idempotent [of Map.empty "\<lparr>transport_sessionId = Some ''s1''\<rparr>" "''s1''"]
    onclose_idempotent [of "[''s1'' \<mapsto> \<lparr>transport_sessionId = Some ''s1''\<rparr>]"
      "\<lparr>transport_sessionId = Some ''s1''\<rparr>" "''s1''"]
  by simp

text \<open>
  A request that names a session which is not in the registry is refused, whatever its
  body: a request with a session id that is not empty never starts a session.
\<close>

lemma stale_session_rejected:
  assumes "session_id_header req = Some s" and "s \<noteq> []" and "transports s = None"
    and "s \<notin> set object_prototype_keys"
  shows "app_post sdk transports req = (Responded bad_request_no_session, transports)"
    and "handleSessionRequest sdk transports req
           = (Responded \<lparr>status = 400, headers = [], body = Text ''Invalid or missing session ID''\<rparr>,
              transports)"
proof -
  have look: "session_lookup transports (session_id_header req) = Undefined"
    using assms by (simp add: session_lookup_unknown)
  show "app_post sdk transports req = (Responded bad_request_no_session, transports)"
    using look assms(1,2) by (simp add: app_post_def truthy_string_def)
  show "handleSessionRequest sdk transports req
           = (Responded \<lparr>status = 400, headers = [], body = Text ''Invalid or missing session ID''\<rparr>,
              transports)"
    using look by (simp add: handleSessionRequest_def)
qed

text \<open>
  Claim C5, as the code has it. In the 4-auth server, a DELETE request with a bearer token
  that validates, no body that \<open>express.json()\<close> refuses, and the id of a live
  session terminates that session: the request
  is handed to the session's transport, inside the authentication context of the request;
  the transport closes, its \<open>onclose\<close> callback removes the session id from the
  registry, and a later request with the same id is refused with 400 as naming no session
  (the id of a session is a UUID, not the name of a member of \<open>Object.prototype\<close>).
  In the DemoServer a DELETE request is answered with 405 and the registry stays as it is.
\<close>

theorem delete_live_session:
  assumes "transports s = Some t" and "s \<noteq> []" and "transport_sessionId t = Some s"
    and "s \<notin> set object_prototype_keys"
    and "http_method req = DELETE" and "session_id_header req = Some s"
    and "body_parser_error req = None"
    and "bearer_token (authorization req) = Some tok" and "tok \<noteq> []"
    and "validateToken tok [resourceId env] = Some cl"
    and "session_id_header req2 = Some s"
  shows "auth_mcp env validateToken (spec_transport delete_reply other) transports req
           = (Handled (Some \<lparr>token = Some tok, tokenClaims = Some cl, isAuthenticated = True,
                             sessionId = Some s\<rparr>) t delete_reply,
              transports(s := None))
       \<and> app_post sdk2 (transports(s := None)) req2
           = (Responded bad_request_no_session, transports(s := None))
       \<and> handleSessionRequest sdk2 (transports(s := None)) req2
           = (Responded \<lparr>status = 400, headers = [], body = Text ''Invalid or missing session ID''\<rparr>,
              transports(s := None))
       \<and> (http_method req3 = DELETE \<and> body_parser_error req3 = None \<longrightarrow>
            demo_mcp sdk3 transports req3
              = (Responded \<lparr>status = 405, headers = [],
                   body = Json (getJsonRpcError METHOD_NOT_ALLOWED_ERROR)\<rparr>, transports))"
proof (intro conjI impI)
  let ?req' = "req\<lparr>req_token := Some tok, req_tokenClaims := Some cl, req_isAuthenticated := Some True\<rparr>"
  have mw: "requiredAuthMiddleware env validateToken req = Next ?req'"
    using assms(8,9,10) by (simp add: requiredAuthMiddleware_def truthy_string_def Let_def)
  have look: "session_lookup transports (session_id_header ?req') = Own t"
    using assms(1,2,6) by (simp add: session_lookup_live)
  have ctx: "authContext_of ?req' (session_id_header ?req')
               = \<lparr>token = Some tok, tokenClaims = Some cl, isAuthenticated = True, sessionId = Some s\<rparr>"
    using assms(6) by (simp add: authContext_of_def)
  have "handleSessionRequest (spec_transport delete_reply other) transports ?req'
          = (Handled (Some \<lparr>token = Some tok, tokenClaims = Some cl, isAuthenticated = True,
                             sessionId = Some s\<rparr>) t delete_reply,
             transports(s := None))"
    using look ctx assms(2,3,5)
    by (simp add: handleSessionRequest_def runWithAuthContext_def handleRequest_def drop_flag_def
        spec_transport_def onclose_auth_def truthy_string_def delete_property_def Let_def)
  then show "auth_mcp env validateToken (spec_transport delete_reply other) transports req
           = (Handled (Some \<lparr>token = Some tok, tokenClaims = Some cl, isAuthenticated = True,
                             sessionId = Some s\<rparr>) t delete_reply,
              transports(s := None))"
    using mw assms(5,7) by (simp add: auth_mcp_def)
  have gone: "(transports(s := None)) s = None"
    by simp
  show "app_post sdk2 (transports(s := None)) req2
           = (Responded bad_request_no_session, transports(s := None))"
    by (rule stale_session_rejected(1) [of req2 s "transports(s := None)", OF assms(11) assms(2) gone assms(4)])
  show "handleSessionRequest sdk2 (transports(s := None)) req2
           = (Responded \<lparr>status = 400, headers = [], body = Text ''Invalid or missing session ID''\<rparr>,
              transports(s := None))"
    by (rule stale_session_rejected(2) [of req2 s "transports(s := None)", OF assms(11) assms(2) gone assms(4)])
next
  assume "http_method req3 = DELETE \<and> body_parser_error req3 = None"
  then show "demo_mcp sdk3 transports req3
              = (Responded \<lparr>status = 405, headers = [],
                   body = Json (getJsonRpcError METHOD_NOT_ALLOWED_ERROR)\<rparr>, transports)"
    by (simp add: demo_mcp_def mcpMethodNotAllowedHandler_def)
qed

theorem delete_live_session_witness:
  "bearer_token (Some ''Bearer good'') = Some ''good''
   \<and> auth_mcp \<lparr>NODE_ENV = None, PORT = None, MCP_RESOURCE_ID = ''https://mcp.example.com''\<rparr>
      (\<lambda>tok aud. if tok = ''good'' \<and> aud = [''http://localhost:3000/mcp'']
                  then Some [(''sub'', ''alice'')] else None)
      (spec_transport \<lparr>status = 200, headers = [], body = NoBody\<rparr> (\<lambda>store t r. Raised False))
      [''s1'' \<mapsto> \<lparr>transport_sessionId = Some ''s1''\<rparr>]
      \<lparr>http_method = DELETE, authorization = Some ''Bearer good'', session_id_header = Some ''s1'',
       body_method = None, is_initialize_request = False, body_parser_error = None,
       req_token = None, req_tokenClaims = None, req_isAuthenticated = None\<rparr>
     = (Handled (Some \<lparr>token = Some ''good'', tokenClaims = Some [(''sub'', ''alice'')],
                      isAuthenticated = True, sessionId = Some ''s1''\<rparr>)
          \<lparr>transport_sessionId = Some ''s1''\<rparr> \<lparr>status = 200, headers = [], body = NoBody\<rparr>,
        Map.empty)
   \<and> app_post (\<lambda>store t r. Raised False) Map.empty
      \<lparr>http_method = POST, authorization = Some ''Bearer good'', session_id_header = Some ''s1'',
       body_method = Some ''initialize'', is_initialize_request = True, body_parser_error = None,
       req_token = Some ''good'', req_tokenClaims = Some [], req_isAuthenticated = Some True\<rparr>
     = (Responded bad_request_no_session, Map.empty)"
proof -
  let ?env = "\<lparr>NODE_ENV = None, PORT = None, MCP_RESOURCE_ID = ''https://mcp.example.com''\<rparr>"
  let ?v = "\<lambda>tok aud. if tok = ''good'' \<and> aud = [''http://localhost:3000/mcp'']
                  then Some [(''sub'', ''alice'')] else None"
  let ?t = "\<lparr>transport_sessionId = Some ''s1''\<rparr>"
  let ?req = "\<lparr>http_method = DELETE, authorization = Some ''Bearer good'', session_id_header = Some ''s1'',
       body_method = None, is_initialize_request = False, body_parser_error = None,
       req_token = None, req_tokenClaims = None, req_isAuthenticated = None\<rparr>"
  let ?req2 = "\<lparr>http_method = POST, authorization = Some ''Bearer good'', session_id_header = Some ''s1'',
       body_method = Some ''initialize'', is_initialize_request = True, body_parser_error = None,
       req_token = Some ''good'', req_tokenClaims = Some [], req_isAuthenticated = Some True\<rparr>"
  have k: "''s1'' \<notin> set object_prototype_keys"
    by (simp add: object_prototype_keys_def)
  have rid: "resourceId ?env = ''http://localhost:3000/mcp''"
    by code_simp
  have tg: "bearer_token (Some ''Bearer good'') = Some ''good''"
    by code_simp
  show ?thesis
    using delete_live_session [of "[''s1'' \<mapsto> ?t]" "''s1''" ?t ?req "''good''" ?v ?env
        "[(''sub'', ''alice'')]" ?req2 "\<lparr>status = 200, headers = [], body = NoBody\<rparr>"
        "\<lambda>store t r. Raised False" "\<lambda>store t r. Raised False"] k rid tg
    by simp
qed

text \<open>
  The claim as it is written fails for the live session \<open>s1\<close>. In the DemoServer
  a DELETE request is answered with 405, no transport sees it, and the session stays
  registered. In the 4-auth server a DELETE request without a bearer token is answered
  with 401 by the middleware, and one whose body \<open>express.json()\<close> refuses is
  answered with the status of that error; in both cases the session stays registered.
\<close>

theorem delete_live_session_counterexample:
  "(\<forall>sdk. demo_mcp sdk [''s1'' \<mapsto> \<lparr>transport_sessionId = Some ''s1''\<rparr>]
       \<lparr>http_method = DELETE, authorization = None, session_id_header = Some ''s1'',
        body_method = None, is_initialize_request = False, body_parser_error = None,
        req_token = None, req_tokenClaims = None, req_isAuthenticated = None\<rparr>
     = (Responded \<lparr>status = 405, headers = [],
          body = Json \<lparr>jsonrpc = ''2.0'',
                   error = \<lparr>code = - 32000, message = ''Method not allowed''\<rparr>,
                   rpc_id = None\<rparr>\<rparr>,
        [''s1'' \<mapsto> \<lparr>transport_sessionId = Some ''s1''\<rparr>]))
   \<and> (\<forall>env validateToken sdk.
        auth_mcp env validateToken sdk [''s1'' \<mapsto> \<lparr>transport_sessionId = Some ''s1''\<rparr>]
          \<lparr>http_method = DELETE, authorization = None, session_id_header = Some ''s1'',
           body_method = None, is_initialize_request = False, body_parser_error = None,
           req_token = None, req_tokenClaims = None, req_isAuthenticated = None\<rparr>
        = (Responded (unauthorized env), [''s1'' \<mapsto> \<lparr>transport_sessionId = Some ''s1''\<rparr>])
        \<and> status (unauthorized env) = 401
        \<and> auth_mcp env validateToken sdk [''s1'' \<mapsto> \<lparr>transport_sessionId = Some ''s1''\<rparr>]
          \<lparr>http_method = DELETE, authorization = Some ''Bearer good'', session_id_header = Some ''s1'',
           body_method = None, is_initialize_request = False, body_parser_error = Some 400,
           req_token = None, req_tokenClaims = None, req_isAuthenticated = None\<rparr>
        = (Responded \<lparr>status = 400, headers = [], body = ErrorPage\<rparr>,
           [''s1'' \<mapsto> \<lparr>transport_sessionId = Some ''s1''\<rparr>]))"
  by (simp add: demo_mcp_def mcpMethodNotAllowedHandler_def getJsonRpcError_def
      METHOD_NOT_ALLOWED_ERROR_def auth_mcp_def requiredAuthMiddleware_def bearer_token_def
      truthy_string_def unauthorized_def body_refused_def)

subsection \<open>The authentication gate\<close>

lemma handleRequest_store:
  "handleRequest sdk onclose extra store transports t req = ((Handled store' t' reply, b), transports')
   \<Longrightarrow> store' = store"
  by (auto simp: handleRequest_def Let_def split: sdk_result.splits)

lemma app_post_store:
  assumes "app_post sdk transports req = (Handled store t reply, transports')"
  shows "store = Some (authContext_of req (session_id_header req))"
proof (cases "session_lookup transports (session_id_header req)")
  case Undefined
  with assms show ?thesis
    by (auto simp: app_post_def runWithAuthContext_def drop_flag_def Let_def
        split: if_splits prod.splits dest: handleRequest_store)
next
  case (Own u)
  with assms show ?thesis
    by (auto simp: app_post_def runWithAuthContext_def drop_flag_def
        split: prod.splits dest: handleRequest_store)
next
  case Inherited
  with assms show ?thesis
    by (simp add: app_post_def)
qed

lemma handleSessionRequest_store:
  assumes "handleSessionRequest sdk transports req = (Handled store t reply, transports')"
  shows "store = Some (authContext_of req (session_id_header req))"
proof (cases "session_lookup transports (session_id_header req)")
  case Undefined
  with assms show ?thesis
    by (simp add: handleSessionRequest_def)
next
  case (Own u)
  with assms show ?thesis
    by (auto simp: handleSessionRequest_def runWithAuthContext_def drop_flag_def
        split: prod.splits dest: handleRequest_store)
next
  case Inherited
  with assms show ?thesis
    by (simp add: handleSessionRequest_def)
qed

lemma middleware_rejects:
  assumes "authorization req = None
           \<or> bearer_token (authorization req) = None
           \<or> bearer_token (authorization req) = Some []
           \<or> (\<exists>tok. bearer_token (authorization req) = Some tok
                  \<and> validateToken tok [resourceId env] = None)"
  shows "requiredAuthMiddleware env validateToken req = Rejected (unauthorized env)"
  using assms
  by (auto simp: requiredAuthMiddleware_def bearer_token_def truthy_string_def Let_def
      split: option.splits)

lemma middleware_accepts:
  assumes "bearer_token (authorization req) = Some tok" and "tok \<noteq> []"
    and "validateToken tok [resourceId env] = Some cl"
  shows "requiredAuthMiddleware env validateToken req
           = Next (req\<lparr>req_token := Some tok, req_tokenClaims := Some cl, req_isAuthenticated := Some True\<rparr>)"
  using assms by (simp add: requiredAuthMiddleware_def truthy_string_def Let_def)

lemma unauthorized_response:
  "unauthorized env =
     \<lparr>status = 401,
      headers = [(''WWW-Authenticate'',
                  ''Bearer realm='' @ [CHR 0x22] @ ''OAuth'' @ [CHR 0x22] @ '', resource_metadata=''
                    @ [CHR 0x22] @ resourceId env @ ''/.well-known/oauth-protected-resource''
                    @ [CHR 0x22])],
      body = NoBody\<rparr>"
  by (simp add: unauthorized_def WWW_AUTHENTICATE_HEADER_def)

text \<open>
  The inherited key gets past the whole 4-auth server as well: with a token that validates,
  a POST that names the session \<open>constructor\<close>, which is not in the registry, is not
  refused but makes the handler throw.
\<close>

lemma inherited_key_through_auth:
  assumes "bearer_token (authorization req) = Some tok" and "tok \<noteq> []"
    and "validateToken tok [resourceId env] = Some cl"
    and "http_method req = POST" and "body_parser_error req = None"
    and "session_id_header req = Some ''constructor''" and "transports ''constructor'' = None"
  shows "auth_mcp env validateToken sdk transports req = (Threw, transports)"
proof -
  let ?req' = "req\<lparr>req_token := Some tok, req_tokenClaims := Some cl, req_isAuthenticated := Some True\<rparr>"
  have mw: "requiredAuthMiddleware env validateToken req = Next ?req'"
    using assms(1,2,3) by (rule middleware_accepts)
  have "session_lookup transports (session_id_header ?req') = Inherited"
    using assms(6,7) by (simp add: session_lookup_def get_property_def object_prototype_keys_def)
  then have "app_post sdk transports ?req' = (Threw, transports)"
    by (simp add: app_post_def)
  then show ?thesis
    using mw assms(4,5) by (simp add: auth_mcp_def)
qed

text \<open>
  Claim C4, as the code has it. A request to \<open>/mcp\<close> of the 4-auth server reaches
  the authentication middleware unless it is a CORS preflight (\<open>OPTIONS\<close>, answered
  by the CORS layer) or \<open>express.json()\<close> refuses its body. A request that reaches
  the middleware and whose \<open>Authorization\<close> header is missing, or gives no bearer
  token, or gives a token that \<open>validateToken\<close> refuses for the audience
  \<open>resourceId\<close>, is answered with 401 and the header
  \<open>WWW-Authenticate: Bearer realm="OAuth", resource_metadata="<resourceId>/.well-known/oauth-protected-resource"\<close>;
  no handler runs, so the registry is unchanged and no transport is called. When the
  token validates, the middleware passes the request on with \<open>isAuthenticated\<close> set, and
  whenever a transport is then called, \<open>isAuthenticated()\<close> is true in the context it
  runs in.
\<close>

theorem auth_gate:
  "(http_method req \<noteq> OPTIONS \<and> body_parser_error req = None
      \<and> (authorization req = None
          \<or> bearer_token (authorization req) = None
          \<or> bearer_token (authorization req) = Some []
          \<or> (\<exists>tok. bearer_token (authorization req) = Some tok
                 \<and> validateToken tok [resourceId env] = None))
     \<longrightarrow> auth_mcp env validateToken sdk transports req
           = (Responded
                \<lparr>status = 401,
                 headers = [(''WWW-Authenticate'',
                   ''Bearer realm='' @ [CHR 0x22] @ ''OAuth'' @ [CHR 0x22] @ '', resource_metadata=''
                     @ [CHR 0x22] @ resourceId env @ ''/.well-known/oauth-protected-resource''
                     @ [CHR 0x22])],
                 body = NoBody\<rparr>, transports))
   \<and> (\<forall>tok cl. bearer_token (authorization req) = Some tok \<and> tok \<noteq> []
          \<and> validateToken tok [resourceId env] = Some cl
        \<longrightarrow> requiredAuthMiddleware env validateToken req
              = Next (req\<lparr>req_token := Some tok, req_tokenClaims := Some cl,
                         req_isAuthenticated := Some True\<rparr>)
            \<and> (\<forall>store t reply transports'.
                  auth_mcp env validateToken sdk transports req = (Handled store t reply, transports')
                  \<longrightarrow> isAuthenticated_helper store))"
proof (intro conjI impI allI)
  assume h: "http_method req \<noteq> OPTIONS \<and> body_parser_error req = None
      \<and> (authorization req = None
          \<or> bearer_token (authorization req) = None
          \<or> bearer_token (authorization req) = Some []
          \<or> (\<exists>tok. bearer_token (authorization req) = Some tok
                 \<and> validateToken tok [resourceId env] = None))"
  then have "requiredAuthMiddleware env validateToken req = Rejected (unauthorized env)"
    by (intro middleware_rejects) simp
  then have "auth_mcp env validateToken sdk transports req = (Responded (unauthorized env), transports)"
    using h by (simp add: auth_mcp_def)
  then show "auth_mcp env validateToken sdk transports req
           = (Responded
                \<lparr>status = 401,
                 headers = [(''WWW-Authenticate'',
                   ''Bearer realm='' @ [CHR 0x22] @ ''OAuth'' @ [CHR 0x22] @ '', resource_metadata=''
                     @ [CHR 0x22] @ resourceId env @ ''/.well-known/oauth-protected-resource''
                     @ [CHR 0x22])],
                 body = NoBody\<rparr>, transports)"
    by (simp only: unauthorized_response)
next
  fix tok cl
  assume h: "bearer_token (authorization req) = Some tok \<and> tok \<noteq> []
          \<and> validateToken tok [resourceId env] = Some cl"
  let ?req' = "req\<lparr>req_token := Some tok, req_tokenClaims := Some cl, req_isAuthenticated := Some True\<rparr>"
  show mw: "requiredAuthMiddleware env validateToken req = Next ?req'"
    using h by (simp add: middleware_accepts)
  fix store t reply transports'
  assume out: "auth_mcp env validateToken sdk transports req = (Handled store t reply, transports')"
  have pre: "http_method req \<noteq> OPTIONS" "body_parser_error req = None"
    using out by (auto simp: auth_mcp_def split: if_splits option.splits)
  have routed: "(case http_method req of
                   POST \<Rightarrow> app_post sdk transports ?req'
                 | GET \<Rightarrow> handleSessionRequest sdk transports ?req'
                 | HEAD \<Rightarrow> handleSessionRequest sdk transports ?req'
                 | DELETE \<Rightarrow> handleSessionRequest sdk transports ?req'
                 | OPTIONS \<Rightarrow> (Responded not_found, transports)
                 | OtherMethod \<Rightarrow> (Responded not_found, transports))
                = (Handled store t reply, transports')"
    using out mw pre by (simp add: auth_mcp_def)
  have "store = Some (authContext_of ?req' (session_id_header ?req'))"
  proof (cases "http_method req")
    case GET
    with routed show ?thesis
      by (auto dest: handleSessionRequest_store)
  next
    case HEAD
    with routed show ?thesis
      by (auto dest: handleSessionRequest_store)
  next
    case POST
    with routed show ?thesis
      by (auto dest: app_post_store)
  next
    case DELETE
    with routed show ?thesis
      by (auto dest: handleSessionRequest_store)
  next
    case OPTIONS
    with routed show ?thesis
      by simp
  next
    case OtherMethod
    with routed show ?thesis
      by simp
  qed
  then show "isAuthenticated_helper store"
    by (simp add: isAuthenticated_helper_def getAuthContext_def authContext_of_def)
qed

theorem auth_gate_witness:
  "auth_mcp \<lparr>NODE_ENV = None, PORT = None, MCP_RESOURCE_ID = ''https://mcp.example.com''\<rparr>
      (\<lambda>tok aud. if tok = ''good'' \<and> aud = [''http://localhost:3000/mcp'']
                  then Some [(''sub'', ''alice'')] else None)
      (\<lambda>store t r. Completed \<lparr>status = 200, headers = [], body = FromTransport ''ok''\<rparr> (Some ''s1'') False)
      Map.empty
      \<lparr>http_method = POST, authorization = None, session_id_header = None,
       body_method = Some ''initialize'', is_initialize_request = True, body_parser_error = None,
       req_token = None, req_tokenClaims = None, req_isAuthenticated = None\<rparr>
     = (Responded
          \<lparr>status = 401,
           headers = [(''WWW-Authenticate'',
             ''Bearer realm='' @ [CHR 0x22] @ ''OAuth'' @ [CHR 0x22] @ '', resource_metadata=''
               @ [CHR 0x22] @ ''http://localhost:3000/mcp/.well-known/oauth-protected-resource''
               @ [CHR 0x22])],
           body = NoBody\<rparr>, Map.empty)
   \<and> bearer_token (Some ''Bearer bad'') = Some ''bad''
   \<and> fst (auth_mcp \<lparr>NODE_ENV = None, PORT = None, MCP_RESOURCE_ID = ''https://mcp.example.com''\<rparr>
      (\<lambda>tok aud. if tok = ''good'' \<and> aud = [''http://localhost:3000/mcp'']
                  then Some [(''sub'', ''alice'')] else None)
      (\<lambda>store t r. Completed \<lparr>status = 200, headers = [], body = FromTransport ''ok''\<rparr> (Some ''s1'') False)
      Map.empty
      \<lparr>http_method = POST, authorization = Some ''Bearer bad'', session_id_header = None,
       body_method = Some ''initialize'', is_initialize_request = True, body_parser_error = None,
       req_token = None, req_tokenClaims = None, req_isAuthenticated = None\<rparr>)
     = Responded
          \<lparr>status = 401,
           headers = [(''WWW-Authenticate'',
             ''Bearer realm='' @ [CHR 0x22] @ ''OAuth'' @ [CHR 0x22] @ '', resource_metadata=''
               @ [CHR 0x22] @ ''http://localhost:3000/mcp/.well-known/oauth-protected-resource''
               @ [CHR 0x22])],
           body = NoBody\<rparr>
   \<and> bearer_token (Some ''Bearer good'') = Some ''good''
   \<and> fst (auth_mcp \<lparr>NODE_ENV = None, PORT = None, MCP_RESOURCE_ID = ''https://mcp.example.com''\<rparr>
      (\<lambda>tok aud. if tok = ''good'' \<and> aud = [''http://localhost:3000/mcp'']
                  then Some [(''sub'', ''alice'')] else None)
      (\<lambda>store t r. Completed \<lparr>status = 200, headers = [], body = FromTransport ''ok''\<rparr> (Some ''s1'') False)
      Map.empty
      \<lparr>http_method = POST, authorization = Some ''Bearer good'', session_id_header = None,
       body_method = Some ''initialize'', is_initialize_request = True, body_parser_error = None,
       req_token = None, req_tokenClaims = None, req_isAuthenticated = None\<rparr>)
     = Handled (Some \<lparr>token = Some ''good'', tokenClaims = Some [(''sub'', ''alice'')],
                      isAuthenticated = True, sessionId = None\<rparr>)
         \<lparr>transport_sessionId = None\<rparr>
         \<lparr>status = 200, headers = [(''mcp-session-id'', ''s1'')], body = FromTransport ''ok''\<rparr>
   \<and> isAuthenticated_helper (Some \<lparr>token = Some ''good'', tokenClaims = Some [(''sub'', ''alice'')],
                      isAuthenticated = True, sessionId = None\<rparr>)
   \<and> fst (auth_mcp \<lparr>NODE_ENV = None, PORT = None, MCP_RESOURCE_ID = ''https://mcp.example.com''\<rparr>
      (\<lambda>tok aud. if tok = ''good'' \<and> aud = [''http://localhost:3000/mcp'']
                  then Some [(''sub'', ''alice'')] else None)
      (\<lambda>store t r. Completed \<lparr>status = 200, headers = [], body = FromTransport ''ok''\<rparr> None False)
      [''s1'' \<mapsto> \<lparr>transport_sessionId = Some ''s1''\<rparr>]
      \<lparr>http_method = HEAD, authorization = Some ''Bearer good'', session_id_header = Some ''s1'',
       body_method = None, is_initialize_request = False, body_parser_error = None,
       req_token = None, req_tokenClaims = None, req_isAuthenticated = None\<rparr>)
     = Handled (Some \<lparr>token = Some ''good'', tokenClaims = Some [(''sub'', ''alice'')],
                      isAuthenticated = True, sessionId = Some ''s1''\<rparr>)
         \<lparr>transport_sessionId = Some ''s1''\<rparr>
         \<lparr>status = 200, headers = [], body = FromTransport ''ok''\<rparr>
   \<and> isAuthenticated_helper (Some \<lparr>token = Some ''good'', tokenClaims = Some [(''sub'', ''alice'')],
                      isAuthenticated = True, sessionId = Some ''s1''\<rparr>)"
proof -
  let ?env = "\<lparr>NODE_ENV = None, PORT = None, MCP_RESOURCE_ID = ''https://mcp.example.com''\<rparr>"
  let ?v = "\<lambda>tok aud. if tok = ''good'' \<and> aud = [''http://localhost:3000/mcp'']
                  then Some [(''sub'', ''alice'')] else None"
  let ?sdk = "\<lambda>(store :: AuthContext option) (t :: transport) (r :: mcp_request).
     Completed \<lparr>status = 200, headers = [], body = FromTransport ''ok''\<rparr> (Some ''s1'') False"
  let ?sdk2 = "\<lambda>(store :: AuthContext option) (t :: transport) (r :: mcp_request).
     Completed \<lparr>status = 200, headers = [], body = FromTransport ''ok''\<rparr> None False"
  let ?reg = "[''s1'' \<mapsto> \<lparr>transport_sessionId = Some ''s1''\<rparr>]"
  let ?none = "\<lparr>http_method = POST, authorization = None, session_id_header = None,
       body_method = Some ''initialize'', is_initialize_request = True, body_parser_error = None,
       req_token = None, req_tokenClaims = None, req_isAuthenticated = None\<rparr>"
  let ?bad = "\<lparr>http_method = POST, authorization = Some ''Bearer bad'', session_id_header = None,
       body_method = Some ''initialize'', is_initialize_request = True, body_parser_error = None,
       req_token = None, req_tokenClaims = None, req_isAuthenticated = None\<rparr>"
  let ?good = "\<lparr>http_method = POST, authorization = Some ''Bearer good'', session_id_header = None,
       body_method = Some ''initialize'', is_initialize_request = True, body_parser_error = None,
       req_token = None, req_tokenClaims = None, req_isAuthenticated = None\<rparr>"
  let ?head = "\<lparr>http_method = HEAD, authorization = Some ''Bearer good'', session_id_header = Some ''s1'',
       body_method = None, is_initialize_request = False, body_parser_error = None,
       req_token = None, req_tokenClaims = None, req_isAuthenticated = None\<rparr>"
  let ?ctx = "Some \<lparr>token = Some ''good'', tokenClaims = Some [(''sub'', ''alice'')],
                      isAuthenticated = True, sessionId = None\<rparr>"
  let ?ctxh = "Some \<lparr>token = Some ''good'', tokenClaims = Some [(''sub'', ''alice'')],
                      isAuthenticated = True, sessionId = Some ''s1''\<rparr>"
  have rid: "resourceId ?env = ''http://localhost:3000/mcp''"
    by code_simp
  have tb: "bearer_token (Some ''Bearer bad'') = Some ''bad''"
    and tg: "bearer_token (Some ''Bearer good'') = Some ''good''"
    by code_simp+
  have g: "fst (auth_mcp ?env ?v ?sdk Map.empty ?good)
     = Handled ?ctx \<lparr>transport_sessionId = None\<rparr>
         \<lparr>status = 200, headers = [(''mcp-session-id'', ''s1'')], body = FromTransport ''ok''\<rparr>"
    by code_simp
  have hd: "fst (auth_mcp ?env ?v ?sdk2 ?reg ?head)
     = Handled ?ctxh \<lparr>transport_sessionId = Some ''s1''\<rparr>
         \<lparr>status = 200, headers = [], body = FromTransport ''ok''\<rparr>"
    by code_simp
  have a: "auth_mcp ?env ?v ?sdk Map.empty ?none
     = (Responded
          \<lparr>status = 401,
           headers = [(''WWW-Authenticate'',
             ''Bearer realm='' @ [CHR 0x22] @ ''OAuth'' @ [CHR 0x22] @ '', resource_metadata=''
               @ [CHR 0x22] @ ''http://localhost:3000/mcp/.well-known/oauth-protected-resource''
               @ [CHR 0x22])],
           body = NoBody\<rparr>, Map.empty)"
    using auth_gate [of ?none ?v ?env ?sdk Map.empty, THEN conjunct1] rid by simp
  have b: "fst (auth_mcp ?env ?v ?sdk Map.empty ?bad)
     = Responded
          \<lparr>status = 401,
           headers = [(''WWW-Authenticate'',
             ''Bearer realm='' @ [CHR 0x22] @ ''OAuth'' @ [CHR 0x22] @ '', resource_metadata=''
               @ [CHR 0x22] @ ''http://localhost:3000/mcp/.well-known/oauth-protected-resource''
               @ [CHR 0x22])],
           body = NoBody\<rparr>"
    using auth_gate [of ?bad ?v ?env ?sdk Map.empty, THEN conjunct1] rid tb by simp
  have valid: "?v ''good'' [resourceId ?env] = Some [(''sub'', ''alice'')]"
    using rid by simp
  have "auth_mcp ?env ?v ?sdk Map.empty ?good
          = (Handled ?ctx \<lparr>transport_sessionId = None\<rparr>
               \<lparr>status = 200, headers = [(''mcp-session-id'', ''s1'')], body = FromTransport ''ok''\<rparr>,
             snd (auth_mcp ?env ?v ?sdk Map.empty ?good))"
    using g by (metis prod.collapse)
  moreover have "bearer_token (authorization ?good) = Some ''good'' \<and> ''good'' \<noteq> []
      \<and> ?v ''good'' [resourceId ?env] = Some [(''sub'', ''alice'')]"
    using tg valid by simp
  ultimately have c: "isAuthenticated_helper ?ctx"
    using auth_gate [of ?good ?v ?env ?sdk Map.empty, THEN conjunct2] by blast
  have "auth_mcp ?env ?v ?sdk2 ?reg ?head
          = (Handled ?ctxh \<lparr>transport_sessionId = Some ''s1''\<rparr>
               \<lparr>status = 200, headers = [], body = FromTransport ''ok''\<rparr>,
             snd (auth_mcp ?env ?v ?sdk2 ?reg ?head))"
    using hd by (metis prod.collapse)
  moreover have "bearer_token (authorization ?head) = Some ''good'' \<and> ''good'' \<noteq> []
      \<and> ?v ''good'' [resourceId ?env] = Some [(''sub'', ''alice'')]"
    using tg valid by simp
  ultimately have d: "isAuthenticated_helper ?ctxh"
    using auth_gate [of ?head ?v ?env ?sdk2 ?reg, THEN conjunct2] by blast
  show ?thesis
    using a b c d tb tg g hd by (intro conjI)
qed

text \<open>
  The claim as it is written fails for requests that do not reach the middleware. Without
  an \<open>Authorization\<close> header, a preflight is answered with 204 by the CORS layer, and
  a POST whose body does not parse is answered with 400 by the error handler of Express:
  neither gets 401 or the \<open>WWW-Authenticate\<close> header.
\<close>

theorem auth_gate_counterexample:
  "\<forall>env validateToken sdk.
     auth_mcp env validateToken sdk Map.empty
       \<lparr>http_method = OPTIONS, authorization = None, session_id_header = None,
       body_method = None, is_initialize_request = False, body_parser_error = None,
       req_token = None, req_tokenClaims = None, req_isAuthenticated = None\<rparr>
     = (Responded \<lparr>status = 204, headers = [], body = NoBody\<rparr>, Map.empty)
     \<and> auth_mcp env validateToken sdk Map.empty
       \<lparr>http_method = POST, authorization = None, session_id_header = None,
       body_method = None, is_initialize_request = False, body_parser_error = Some 400,
       req_token = None, req_tokenClaims = None, req_isAuthenticated = None\<rparr>
     = (Responded \<lparr>status = 400, headers = [], body = ErrorPage\<rparr>, Map.empty)"
  by (simp add: auth_mcp_def cors_preflight_def body_refused_def)

end
